theory Spec2Isabelle
  imports Complex_Main
begin

section \<open>Rendering numbers in template strings\<close>

text \<open>
  The sources build URIs, titles and messages with template literals such as
  \<^verbatim>\<open>`epicme://entries/${entryId}`\<close>. Identifiers are database row ids and counts, so the
  numbers that are rendered are integers; JavaScript prints an integer in decimal, with
  a leading minus sign when it is negative.
\<close>

definition digit_char :: "nat \<Rightarrow> char" where
  "digit_char d = ''0123456789'' ! d"

fun show_nat :: "nat \<Rightarrow> string" where
  "show_nat n = (if n < 10 then [digit_char n] else show_nat (n div 10) @ [digit_char (n mod 10)])"

declare show_nat.simps [simp del]

definition show_int :: "int \<Rightarrow> string" where
  "show_int i = (if i < 0 then CHR ''-'' # show_nat (nat (- i)) else show_nat (nat i))"

section \<open>The capability gate: prompts.ts and resources.ts\<close>

subsection \<open>Data\<close>

record entry =
  entry_id :: int
  title :: string
  content :: string

record tag =
  tag_id :: int
  name :: string

text \<open>
  What one handler run reads from its collaborators: \<^verbatim>\<open>agent.db.getEntries()\<close>,
  \<^verbatim>\<open>agent.db.getTags()\<close> and \<^verbatim>\<open>listVideos()\<close> (the directory listing, empty when the
  directory cannot be read).
\<close>

record snapshot =
  getEntries :: "entry list"
  getTags :: "tag list"
  listVideos :: "string list"

text \<open>The five registered objects that are switched on and off.\<close>

datatype capability =
  SuggestTagsPrompt | TagListResource | TagsResource | EntryResource | VideoResource

datatype notification =
  ResourceListChanged
  | PromptListChanged
  | ResourceUpdated string string

text \<open>The handlers that the sources register on the database's change bus.\<close>

datatype handler = SendResourceListChanged | UpdateResources | UpdatePrompts

record server =
  connected :: bool
  outbox :: "notification list"
  enabled :: "capability \<Rightarrow> bool"
  db_subscribers :: "handler list"
  video_subscribers :: "handler list"

subsection \<open>The protocol library\<close>

text \<open>
  Modelled from the spec: the protocol server library (\<^verbatim>\<open>McpServer\<close>) is an external
  package and is not among the sources. The spec has each enable/disable action
  "trigger a bulk list changed notification to connected clients", and the doc comment
  of \<^verbatim>\<open>updatePrompts\<close> says the same of \<^verbatim>\<open>enable()\<close> and \<^verbatim>\<open>disable()\<close>: the flag is
  written and one list-changed notification for the object's category is sent, which
  reaches a client only when a transport is connected. \<^verbatim>\<open>outbox\<close> is what has been sent.
\<close>

definition sendResourceListChanged :: "server \<Rightarrow> server" where
  "sendResourceListChanged s =
     (if connected s then s\<lparr>outbox := outbox s @ [ResourceListChanged]\<rparr> else s)"

definition sendPromptListChanged :: "server \<Rightarrow> server" where
  "sendPromptListChanged s =
     (if connected s then s\<lparr>outbox := outbox s @ [PromptListChanged]\<rparr> else s)"

definition list_changed :: "capability \<Rightarrow> notification" where
  "list_changed c = (case c of SuggestTagsPrompt \<Rightarrow> PromptListChanged | _ \<Rightarrow> ResourceListChanged)"

definition send_list_changed :: "capability \<Rightarrow> server \<Rightarrow> server" where
  "send_list_changed c s =
     (case c of SuggestTagsPrompt \<Rightarrow> sendPromptListChanged s | _ \<Rightarrow> sendResourceListChanged s)"

definition enable :: "capability \<Rightarrow> server \<Rightarrow> server" where
  "enable c s = send_list_changed c (s\<lparr>enabled := (enabled s)(c := True)\<rparr>)"

definition disable :: "capability \<Rightarrow> server \<Rightarrow> server" where
  "disable c s = send_list_changed c (s\<lparr>enabled := (enabled s)(c := False)\<rparr>)"

text \<open>
  Registration creates the object with the library's default flag. The default is not
  in the sources (the doc comment of \<^verbatim>\<open>initializePrompts\<close> says "initially disabled"), so
  it is the parameter \<open>reg\<close>; every result below holds for each default.
\<close>

definition register :: "(capability \<Rightarrow> bool) \<Rightarrow> capability \<Rightarrow> server \<Rightarrow> server" where
  "register reg c s = s\<lparr>enabled := (enabled s)(c := reg c)\<rparr>"

definition connect :: "server \<Rightarrow> server" where
  "connect s = s\<lparr>connected := True\<rparr>"

subsection \<open>updatePrompts and updateResources\<close>

definition updatePrompts :: "snapshot \<Rightarrow> server \<Rightarrow> server" where
  "updatePrompts snap s =
     (if length (getEntries snap) > 0
      then (if \<not> enabled s SuggestTagsPrompt then enable SuggestTagsPrompt s else s)
      else (if enabled s SuggestTagsPrompt then disable SuggestTagsPrompt s else s))"

definition updateResources :: "snapshot \<Rightarrow> server \<Rightarrow> server" where
  "updateResources snap s =
     (let s1 =
        (if length (getTags snap) > 0
         then (let a = (if \<not> enabled s TagListResource then enable TagListResource s else s)
               in (if \<not> enabled a TagsResource then enable TagsResource a else a))
         else (let a = (if enabled s TagListResource then disable TagListResource s else s)
               in (if enabled a TagsResource then disable TagsResource a else a)));
          s2 =
        (if length (getEntries snap) > 0
         then (if \<not> enabled s1 EntryResource then enable EntryResource s1 else s1)
         else (if enabled s1 EntryResource then disable EntryResource s1 else s1));
          s3 =
        (if length (listVideos snap) > 0
         then (if \<not> enabled s2 VideoResource then enable VideoResource s2 else s2)
         else (if enabled s2 VideoResource then disable VideoResource s2 else s2))
      in s3)"

subsection \<open>Initialisation and the change tick\<close>

definition db_subscribe :: "handler \<Rightarrow> server \<Rightarrow> server" where
  "db_subscribe h s = s\<lparr>db_subscribers := db_subscribers s @ [h]\<rparr>"

definition subscribeToVideoChanges :: "handler \<Rightarrow> server \<Rightarrow> server" where
  "subscribeToVideoChanges h s = s\<lparr>video_subscribers := video_subscribers s @ [h]\<rparr>"

definition initializeResources :: "(capability \<Rightarrow> bool) \<Rightarrow> snapshot \<Rightarrow> server \<Rightarrow> server" where
  "initializeResources reg snap s =
     (let s1 = db_subscribe SendResourceListChanged s;
          s2 = subscribeToVideoChanges SendResourceListChanged s1;
          s3 = register reg TagListResource s2;
          s4 = register reg TagsResource s3;
          s5 = register reg EntryResource s4;
          s6 = register reg VideoResource s5;
          s7 = db_subscribe UpdateResources s6
      in updateResources snap s7)"

definition initializePrompts :: "(capability \<Rightarrow> bool) \<Rightarrow> snapshot \<Rightarrow> server \<Rightarrow> server" where
  "initializePrompts reg snap s =
     (let s1 = register reg SuggestTagsPrompt s;
          s2 = db_subscribe UpdatePrompts s1
      in updatePrompts snap s2)"

text \<open>
  \<^verbatim>\<open>new EpicMeMCP(path)\<close>: no transport yet, nothing sent, nothing registered. The flags
  of objects that are not registered yet are never read; \<open>register\<close> overwrites them.
\<close>

definition new_server :: server where
  "new_server =
     \<lparr>connected = False, outbox = [], enabled = (\<lambda>_. False),
      db_subscribers = [], video_subscribers = []\<rparr>"

text \<open>
  \<^verbatim>\<open>init()\<close> runs \<^verbatim>\<open>initializeTools\<close> (which registers tools only and touches none of
  this state), then \<^verbatim>\<open>initializeResources\<close>, then \<^verbatim>\<open>initializePrompts\<close>. \<^verbatim>\<open>main()\<close> awaits
  \<^verbatim>\<open>init()\<close> and connects the transport afterwards.
\<close>

definition init :: "(capability \<Rightarrow> bool) \<Rightarrow> snapshot \<Rightarrow> server \<Rightarrow> server" where
  "init reg snap s = initializePrompts reg snap (initializeResources reg snap s)"

definition main :: "(capability \<Rightarrow> bool) \<Rightarrow> snapshot \<Rightarrow> server" where
  "main reg snap = connect (init reg snap new_server)"

fun run_handler :: "snapshot \<Rightarrow> handler \<Rightarrow> server \<Rightarrow> server" where
  "run_handler snap SendResourceListChanged s = sendResourceListChanged s"
| "run_handler snap UpdateResources s = updateResources snap s"
| "run_handler snap UpdatePrompts s = updatePrompts snap s"

text \<open>
  Modelled from the spec: the store and its bus (\<^verbatim>\<open>db/index.ts\<close>) are not among the
  sources. The spec has a mutation publish once, and a publish invoke every registered
  handler in registration order, each awaited before the next. \<open>snap\<close> is what the
  handlers read after the mutation.
\<close>

fun publish :: "snapshot \<Rightarrow> handler list \<Rightarrow> server \<Rightarrow> server" where
  "publish snap [] s = s"
| "publish snap (h # hs) s = publish snap hs (run_handler snap h s)"

definition db_change :: "server \<Rightarrow> snapshot \<Rightarrow> server" where
  "db_change s snap = publish snap (db_subscribers s) s"

text \<open>The predicate of each capability, in the words of the claim.\<close>

fun predicate :: "capability \<Rightarrow> snapshot \<Rightarrow> bool" where
  "predicate SuggestTagsPrompt snap = (length (getEntries snap) > 0)"
| "predicate TagListResource snap = (length (getTags snap) > 0)"
| "predicate TagsResource snap = (length (getTags snap) > 0)"
| "predicate EntryResource snap = (length (getEntries snap) > 0)"
| "predicate VideoResource snap = (length (listVideos snap) > 0)"

definition capabilities :: "capability list" where
  "capabilities = [TagListResource, TagsResource, EntryResource, VideoResource, SuggestTagsPrompt]"

text \<open>
  The handlers on the store's bus once \<open>init\<close> has run, in registration order: the
  unconditional \<^verbatim>\<open>sendResourceListChanged\<close> of \<^verbatim>\<open>initializeResources\<close>, then
  \<^verbatim>\<open>updateResources\<close>, then \<^verbatim>\<open>updatePrompts\<close>.
\<close>

definition standard_handlers :: "handler list" where
  "standard_handlers = [SendResourceListChanged, UpdateResources, UpdatePrompts]"

text \<open>
  The pattern that \<^verbatim>\<open>updatePrompts\<close> and \<^verbatim>\<open>updateResources\<close> repeat for each object: call
  \<^verbatim>\<open>enable()\<close> or \<^verbatim>\<open>disable()\<close> only when the flag differs from the wanted value.
\<close>

definition gate :: "capability \<Rightarrow> bool \<Rightarrow> server \<Rightarrow> server" where
  "gate c b s =
     (if b then (if \<not> enabled s c then enable c s else s)
      else (if enabled s c then disable c s else s))"

text \<open>Two snapshots for the examples: an empty store, and one record of each kind.\<close>

definition empty_snapshot :: snapshot where
  "empty_snapshot = \<lparr>getEntries = [], getTags = [], listVideos = []\<rparr>"

definition one_of_each :: snapshot where
  "one_of_each =
     \<lparr>getEntries = [\<lparr>entry_id = 1, title = ''First'', content = ''Hello''\<rparr>],
      getTags = [\<lparr>tag_id = 1, name = ''work''\<rparr>],
      listVideos = [''wrapped-2025.mp4'']\<rparr>"

section \<open>The identity subscription registry: subscriptions.ts\<close>

text \<open>
  \<^verbatim>\<open>uriSubscriptions\<close> is a module-level \<^verbatim>\<open>Set<string>\<close>; the two request handlers add to
  it and delete from it.
\<close>

definition subscribe_request :: "string \<Rightarrow> string set \<Rightarrow> string set" where
  "subscribe_request uri uriSubscriptions = insert uri uriSubscriptions"

definition unsubscribe_request :: "string \<Rightarrow> string set \<Rightarrow> string set" where
  "unsubscribe_request uri uriSubscriptions = uriSubscriptions - {uri}"

text \<open>
  The change descriptor that the store hands to its subscribers. Both lists are
  optional: the handler reads \<^verbatim>\<open>changes.entries ?? []\<close> and \<^verbatim>\<open>changes.tags ?? []\<close>.
\<close>

record changes =
  changes_entries :: "int list option"
  changes_tags :: "int list option"

definition entry_uri :: "int \<Rightarrow> string" where
  "entry_uri entryId = ''epicme://entries/'' @ show_int entryId"

definition entry_title :: "int \<Rightarrow> string" where
  "entry_title entryId = ''Entry '' @ show_int entryId"

definition tag_uri :: "int \<Rightarrow> string" where
  "tag_uri tagId = ''epicme://tags/'' @ show_int tagId"

definition tag_title :: "int \<Rightarrow> string" where
  "tag_title tagId = ''Tag '' @ show_int tagId"

definition video_uri :: "string \<Rightarrow> string" where
  "video_uri video = ''epicme://videos/'' @ video"

definition video_title :: "string \<Rightarrow> string" where
  "video_title video = ''Video '' @ video"

text \<open>
  The three loops of the handlers; each returns the notifications it passes to
  \<^verbatim>\<open>agent.server.server.notification\<close>, in order.
\<close>

fun notify_entries :: "string set \<Rightarrow> int list \<Rightarrow> notification list" where
  "notify_entries uriSubscriptions [] = []"
| "notify_entries uriSubscriptions (entryId # rest) =
     (if entry_uri entryId \<in> uriSubscriptions
      then ResourceUpdated (entry_uri entryId) (entry_title entryId)
             # notify_entries uriSubscriptions rest
      else notify_entries uriSubscriptions rest)"

fun notify_tags :: "string set \<Rightarrow> int list \<Rightarrow> notification list" where
  "notify_tags uriSubscriptions [] = []"
| "notify_tags uriSubscriptions (tagId # rest) =
     (if tag_uri tagId \<in> uriSubscriptions
      then ResourceUpdated (tag_uri tagId) (tag_title tagId)
             # notify_tags uriSubscriptions rest
      else notify_tags uriSubscriptions rest)"

fun notify_videos :: "string set \<Rightarrow> string list \<Rightarrow> notification list" where
  "notify_videos uriSubscriptions [] = []"
| "notify_videos uriSubscriptions (video # rest) =
     (if video_uri video \<in> uriSubscriptions
      then ResourceUpdated (video_uri video) (video_title video)
             # notify_videos uriSubscriptions rest
      else notify_videos uriSubscriptions rest)"

definition on_db_change :: "string set \<Rightarrow> changes \<Rightarrow> notification list" where
  "on_db_change uriSubscriptions ch =
     notify_entries uriSubscriptions (case changes_entries ch of None \<Rightarrow> [] | Some es \<Rightarrow> es)
     @ notify_tags uriSubscriptions (case changes_tags ch of None \<Rightarrow> [] | Some ts \<Rightarrow> ts)"

definition on_video_change :: "string set \<Rightarrow> string list \<Rightarrow> notification list" where
  "on_video_change uriSubscriptions videos = notify_videos uriSubscriptions videos"

text \<open>
  What reaches the module over time: subscribe and unsubscribe requests, publishes of
  the store, and changes of the video directory (with the listing read at that moment).
  The state is the subscription set and the notifications dispatched so far.
\<close>

datatype request =
  Subscribe string
  | Unsubscribe string
  | DbChange changes
  | VideoChange "string list"

fun subscriptions_step :: "string set \<times> notification list \<Rightarrow> request \<Rightarrow> string set \<times> notification list" where
  "subscriptions_step (subs, sent) (Subscribe uri) = (subscribe_request uri subs, sent)"
| "subscriptions_step (subs, sent) (Unsubscribe uri) = (unsubscribe_request uri subs, sent)"
| "subscriptions_step (subs, sent) (DbChange ch) = (subs, sent @ on_db_change subs ch)"
| "subscriptions_step (subs, sent) (VideoChange videos) = (subs, sent @ on_video_change subs videos)"

definition subscriptions_run :: "string set \<Rightarrow> request list \<Rightarrow> string set \<times> notification list" where
  "subscriptions_run subs reqs = foldl subscriptions_step (subs, []) reqs"

section \<open>The delete tools: tools.ts\<close>

datatype error = Error string

text \<open>
  Modelled from the spec: the store (\<^verbatim>\<open>db/index.ts\<close>) is not among the sources. The spec
  calls it an ordinary keyed-record repository with \<^verbatim>\<open>getEntry(id) -> optional record\<close>
  and \<^verbatim>\<open>getTag(id) -> optional record\<close>; deleting removes the record with that key.
\<close>

record db =
  entries :: "entry list"
  tags :: "tag list"

definition getEntry :: "db \<Rightarrow> int \<Rightarrow> entry option" where
  "getEntry d i = find (\<lambda>e. entry_id e = i) (entries d)"

definition deleteEntry :: "db \<Rightarrow> int \<Rightarrow> db" where
  "deleteEntry d i = d\<lparr>entries := filter (\<lambda>e. entry_id e \<noteq> i) (entries d)\<rparr>"

definition getTag :: "db \<Rightarrow> int \<Rightarrow> tag option" where
  "getTag d i = find (\<lambda>t. tag_id t = i) (tags d)"

definition deleteTag :: "db \<Rightarrow> int \<Rightarrow> db" where
  "deleteTag d i = d\<lparr>tags := filter (\<lambda>t. tag_id t \<noteq> i) (tags d)\<rparr>"

text \<open>
  A tool result: the structured content and the content list. \<^verbatim>\<open>createText\<close> of a string
  is that text; \<^verbatim>\<open>createText\<close> of the structured content is its JSON rendering, kept here
  as the value that is rendered.
\<close>

record resource_link =
  uri :: string
  link_name :: string
  description :: string
  mimeType :: string

datatype 'a content_item =
  TextContent string
  | JsonContent 'a
  | ResourceLinkContent resource_link

record 'a tool_result =
  structuredContent :: 'a
  content_list :: "'a content_item list"

record delete_entry_output =
  success :: bool
  entry :: entry

record delete_tag_output =
  tag_success :: bool
  tag :: tag

definition createEntryResourceLink :: "entry \<Rightarrow> resource_link" where
  "createEntryResourceLink e =
     \<lparr>uri = ''epicme://entries/'' @ show_int (entry_id e),
      link_name = title e,
      description = ''Journal Entry: \"'' @ title e @ ''\"'',
      mimeType = ''application/json''\<rparr>"

definition createTagResourceLink :: "tag \<Rightarrow> resource_link" where
  "createTagResourceLink t =
     \<lparr>uri = ''epicme://tags/'' @ show_int (tag_id t),
      link_name = name t,
      description = ''Tag: \"'' @ name t @ ''\"'',
      mimeType = ''application/json''\<rparr>"

text \<open>
  \<^verbatim>\<open>invariant(value, message)\<close> throws an error with that message when the value is
  missing. The handlers return the store as they leave it, and the thrown error or the
  tool result.
\<close>

definition delete_entry :: "db \<Rightarrow> int \<Rightarrow> db \<times> (error + delete_entry_output tool_result)" where
  "delete_entry d i =
     (case getEntry d i of
        None \<Rightarrow> (d, Inl (Error (''Entry with ID \"'' @ show_int i @ ''\" not found'')))
      | Some existingEntry \<Rightarrow>
          (let d' = deleteEntry d i;
               sc = \<lparr>success = True, entry = existingEntry\<rparr>
           in (d', Inr \<lparr>structuredContent = sc,
                        content_list =
                          [TextContent (''Entry \"'' @ title existingEntry @ ''\" (ID: ''
                             @ show_int i @ '') deleted successfully''),
                           ResourceLinkContent (createEntryResourceLink existingEntry),
                           JsonContent sc]\<rparr>)))"

definition delete_tag :: "db \<Rightarrow> int \<Rightarrow> db \<times> (error + delete_tag_output tool_result)" where
  "delete_tag d i =
     (case getTag d i of
        None \<Rightarrow> (d, Inl (Error (''Tag ID \"'' @ show_int i @ ''\" not found'')))
      | Some existingTag \<Rightarrow>
          (let d' = deleteTag d i;
               sc = \<lparr>tag_success = True, tag = existingTag\<rparr>
           in (d', Inr \<lparr>structuredContent = sc,
                        content_list =
                          [TextContent (''Tag \"'' @ name existingTag @ ''\" (ID: ''
                             @ show_int i @ '') deleted successfully''),
                           ResourceLinkContent (createTagResourceLink existingTag),
                           JsonContent sc]\<rparr>)))"

text \<open>A store with two entries and one tag, for the examples.\<close>

definition sample_db :: db where
  "sample_db =
     \<lparr>entries = [\<lparr>entry_id = 1, title = ''First'', content = ''Hello''\<rparr>,
                 \<lparr>entry_id = 2, title = ''Second'', content = ''World''\<rparr>],
      tags = [\<lparr>tag_id = 5, name = ''work''\<rparr>]\<rparr>"


section \<open>The video pipeline: video.ts\<close>

subsection \<open>The subscriber set\<close>

text \<open>
  \<^verbatim>\<open>subscribers\<close> is a \<^verbatim>\<open>Set<() => void>\<close>: function objects in insertion order, each at
  most once. A subscriber is modelled by the identity of its function object and by
  what a call of it does to the state it shares with the rest of the process: it
  returns the new state and, when it throws, the error.
\<close>

type_synonym 'st subscriber = "nat \<times> ('st \<Rightarrow> 'st \<times> error option)"

definition subscribe :: "'st subscriber \<Rightarrow> 'st subscriber list \<Rightarrow> 'st subscriber list" where
  "subscribe subscriber subscribers =
     (if fst subscriber \<in> set (map fst subscribers) then subscribers
      else subscribers @ [subscriber])"

text \<open>The function that \<^verbatim>\<open>subscribe\<close> returns deletes that subscriber again.\<close>

definition unsubscribe :: "'st subscriber \<Rightarrow> 'st subscriber list \<Rightarrow> 'st subscriber list" where
  "unsubscribe subscriber subscribers = filter (\<lambda>s. fst s \<noteq> fst subscriber) subscribers"

text \<open>
  \<^verbatim>\<open>for (const subscriber of subscribers) { subscriber() }\<close>: there is no \<^verbatim>\<open>try\<close> around
  the call, so an error thrown by a subscriber leaves the loop and the function.
\<close>

fun notifySubscribers :: "'st subscriber list \<Rightarrow> 'st \<Rightarrow> 'st \<times> error option" where
  "notifySubscribers [] st = (st, None)"
| "notifySubscribers (subscriber # rest) st =
     (case snd subscriber st of
        (st', Some e) \<Rightarrow> (st', Some e)
      | (st', None) \<Rightarrow> notifySubscribers rest st')"

subsection \<open>Scene construction\<close>

definition longestEntry :: "entry list \<Rightarrow> entry option" where
  "longestEntry es =
     foldl (\<lambda>longest e.
              if length (content e) > (case longest of None \<Rightarrow> 0 | Some l \<Rightarrow> length (content l))
              then Some e else longest)
       (case es of [] \<Rightarrow> None | e0 # _ \<Rightarrow> Some e0) es"

definition shortestEntry :: "entry list \<Rightarrow> entry option" where
  "shortestEntry es =
     foldl (\<lambda>shortest e.
              if length (content e) < (case shortest of None \<Rightarrow> 0 | Some l \<Rightarrow> length (content l))
              then Some e else shortest)
       (case es of [] \<Rightarrow> None | e0 # _ \<Rightarrow> Some e0) es"

record overlay =
  overlay_text :: string
  color :: string
  fontsize :: nat

text \<open>
  The array \<^verbatim>\<open>texts\<close> before \<^verbatim>\<open>.filter(Boolean)\<close>; a \<^verbatim>\<open>null\<close> element is \<open>None\<close>. Two of the
  texts are read from the machine and not from the arguments: \<^verbatim>\<open>userInfo().username\<close>
  and today's date as \<^verbatim>\<open>toLocaleDateString\<close> prints it. The line break inside the
  longest-entry and shortest-entry texts is character 10.
\<close>

definition texts_raw :: "string \<Rightarrow> string \<Rightarrow> entry list \<Rightarrow> tag list \<Rightarrow> int \<Rightarrow> overlay option list" where
  "texts_raw username today es ts year =
     [Some \<lparr>overlay_text = ''Hello '' @ username @ ''!'', color = ''#FF1493'', fontsize = 72\<rparr>,
      Some \<lparr>overlay_text = ''It is '' @ today, color = ''#33FF99'', fontsize = 72\<rparr>,
      Some \<lparr>overlay_text = ''Here is your EpicMe wrapped video for '' @ show_int year,
            color = ''#66CCFF'', fontsize = 72\<rparr>,
      Some \<lparr>overlay_text = ''You wrote '' @ show_nat (length es) @ '' entries in '' @ show_int year,
            color = ''#ff69b4'', fontsize = 72\<rparr>,
      (case longestEntry es of
         Some l \<Rightarrow>
           Some \<lparr>overlay_text = ''Your longest entry was '' @ show_nat (length (content l))
                   @ '' characters'' @ [CHR 0x0A] @ ''\"'' @ title l @ ''\" '',
                 color = ''#FF0000'', fontsize = 72\<rparr>
       | None \<Rightarrow> None),
      (case shortestEntry es of
         Some l \<Rightarrow>
           Some \<lparr>overlay_text = ''Your shortest entry was '' @ show_nat (length (content l))
                   @ '' characters'' @ [CHR 0x0A] @ ''\"'' @ title l @ ''\" '',
                 color = ''#B39DDB'', fontsize = 72\<rparr>
       | None \<Rightarrow> None),
      (if length es < 1
       then Some \<lparr>overlay_text = ''You did not write any entries in '' @ show_int year,
                  color = ''#D2B48C'', fontsize = 72\<rparr>
       else None),
      (if length ts > 0
       then Some \<lparr>overlay_text = ''And you created '' @ show_nat (length ts) @ '' tags in '' @ show_int year,
                  color = ''#FFB300'', fontsize = 72\<rparr>
       else Some \<lparr>overlay_text = ''You did not create any tags in '' @ show_int year,
                  color = ''#D2B48C'', fontsize = 72\<rparr>),
      Some \<lparr>overlay_text = ''Good job!'', color = ''red'', fontsize = 72\<rparr>,
      Some \<lparr>overlay_text = ''Keep Journaling in '' @ show_int (year + 1) @ ''!'',
            color = ''#ffa500'', fontsize = 72\<rparr>]"

definition texts :: "string \<Rightarrow> string \<Rightarrow> entry list \<Rightarrow> tag list \<Rightarrow> int \<Rightarrow> overlay list" where
  "texts username today es ts year = List.map_filter (\<lambda>t. t) (texts_raw username today es ts year)"

definition totalDurationSeconds :: rat where
  "totalDurationSeconds = 60"

text \<open>
  The start and end time of each text. The source computes them in double precision;
  they are exact rationals here. The \<^verbatim>\<open>drawtext\<close> filter strings that the source prints
  from the texts and these times are the renderer's input syntax and are left out.
\<close>

definition timings :: "overlay list \<Rightarrow> (rat \<times> rat) list" where
  "timings txts =
     (let perTextDuration = totalDurationSeconds / of_nat (length txts)
      in map (\<lambda>i. (perTextDuration * of_nat i, perTextDuration * (of_nat i + 1)))
           [0 ..< length txts])"

definition scene :: "string \<Rightarrow> string \<Rightarrow> entry list \<Rightarrow> tag list \<Rightarrow> int \<Rightarrow> (overlay \<times> rat \<times> rat) list" where
  "scene username today es ts year =
     (let txts = texts username today es ts year in zip txts (timings txts))"

subsection \<open>Progress lines of the renderer\<close>

text \<open>
  The regular expression \<^verbatim>\<open>/time=(\d{2}):(\d{2}):(\d{2})\.(\d{2})/\<close>, matched against one
  chunk of the renderer's error stream: the leftmost position at which the pattern fits.
\<close>

definition digit_val :: "char \<Rightarrow> nat option" where
  "digit_val c =
     map_of [(CHR ''0'', 0), (CHR ''1'', 1), (CHR ''2'', 2), (CHR ''3'', 3), (CHR ''4'', 4),
             (CHR ''5'', 5), (CHR ''6'', 6), (CHR ''7'', 7), (CHR ''8'', 8), (CHR ''9'', 9)] c"

fun two_digits :: "string \<Rightarrow> (nat \<times> string) option" where
  "two_digits (a # b # rest) =
     (case (digit_val a, digit_val b) of
        (Some x, Some y) \<Rightarrow> Some (10 * x + y, rest)
      | _ \<Rightarrow> None)"
| "two_digits _ = None"

fun literal :: "string \<Rightarrow> string \<Rightarrow> string option" where
  "literal [] s = Some s"
| "literal (p # ps) [] = None"
| "literal (p # ps) (c # cs) = (if p = c then literal ps cs else None)"

definition match_here :: "string \<Rightarrow> (nat \<times> nat \<times> nat \<times> nat) option" where
  "match_here s =
     (case literal ''time='' s of None \<Rightarrow> None | Some s1 \<Rightarrow>
      case two_digits s1 of None \<Rightarrow> None | Some (hours, s2) \<Rightarrow>
      case literal '':'' s2 of None \<Rightarrow> None | Some s3 \<Rightarrow>
      case two_digits s3 of None \<Rightarrow> None | Some (minutes, s4) \<Rightarrow>
      case literal '':'' s4 of None \<Rightarrow> None | Some s5 \<Rightarrow>
      case two_digits s5 of None \<Rightarrow> None | Some (seconds, s6) \<Rightarrow>
      case literal ''.'' s6 of None \<Rightarrow> None | Some s7 \<Rightarrow>
      case two_digits s7 of None \<Rightarrow> None | Some (fraction, _) \<Rightarrow>
        Some (hours, minutes, seconds, fraction))"

fun timeMatch :: "string \<Rightarrow> (nat \<times> nat \<times> nat \<times> nat) option" where
  "timeMatch [] = None"
| "timeMatch (c # cs) =
     (case match_here (c # cs) of Some t \<Rightarrow> Some t | None \<Rightarrow> timeMatch cs)"

definition stderr_progress :: "string \<Rightarrow> rat option" where
  "stderr_progress str =
     (case timeMatch str of
        None \<Rightarrow> None
      | Some (hours, minutes, seconds, fraction) \<Rightarrow>
          (let currentSeconds =
                 of_nat hours * 3600 + of_nat minutes * 60 + of_nat seconds + of_nat fraction / 100
           in Some (min (currentSeconds / totalDurationSeconds) 1)))"

subsection \<open>The renderer process\<close>

text \<open>
  What happens while \<^verbatim>\<open>ffmpegPromise\<close> is pending, in the order in which the event loop
  delivers it: a chunk on the process's error stream, the \<^verbatim>\<open>abort\<close> event of the signal,
  the \<^verbatim>\<open>close\<close> event of the process with its exit code (\<^verbatim>\<open>null\<close> when a signal ended it).
  The source registers no handler for a process that cannot be started; that failure is
  outside this model.
\<close>

datatype proc_event = Data string | Abort | Close "int option"

record proc =
  aborted :: bool
  killed :: bool
  kills :: "string list"
  reported :: "rat list"

definition cancelled :: "int \<Rightarrow> error" where
  "cancelled year = Error (''Creating Wrapped Video for '' @ show_int year @ '' was cancelled'')"

definition show_code :: "int option \<Rightarrow> string" where
  "show_code code = (case code of None \<Rightarrow> ''null'' | Some c \<Rightarrow> show_int c)"

definition onAbort :: "proc \<Rightarrow> proc" where
  "onAbort p = (if \<not> killed p then p\<lparr>killed := True, kills := kills p @ [''SIGKILL'']\<rparr> else p)"

text \<open>
  The result is \<open>None\<close> while the promise is pending: without a \<^verbatim>\<open>close\<close> event it never
  settles. An \<^verbatim>\<open>abort\<close> event is dispatched once, to the listeners registered at that
  moment; a signal that is aborted already dispatches nothing.
\<close>

fun ffmpegPromise :: "int \<Rightarrow> proc \<Rightarrow> proc_event list \<Rightarrow> proc \<times> (error + string) option" where
  "ffmpegPromise year p [] = (p, None)"
| "ffmpegPromise year p (Data str # evs) =
     ffmpegPromise year
       (case stderr_progress str of
          None \<Rightarrow> p
        | Some progress \<Rightarrow> p\<lparr>reported := reported p @ [progress]\<rparr>) evs"
| "ffmpegPromise year p (Abort # evs) =
     ffmpegPromise year (if aborted p then p else onAbort (p\<lparr>aborted := True\<rparr>)) evs"
| "ffmpegPromise year p (Close code # evs) =
     (if aborted p then (p, Some (Inl (cancelled year)))
      else if code = Some 0
      then (p\<lparr>reported := reported p @ [1]\<rparr>,
            Some (Inr (''./videos/wrapped-'' @ show_int year @ ''.mp4'')))
      else (p, Some (Inl (Error (''ffmpeg exited with code '' @ show_code code)))))"

subsection \<open>The mock loop\<close>

text \<open>
  \<^verbatim>\<open>for (let i = 0; i < mockTime; i += step)\<close>. \<open>ab k\<close> is \<^verbatim>\<open>signal?.aborted\<close> as the \<open>k\<close>-th
  pass of the loop reads it. The result is the progress reported and whether the loop
  threw the cancellation error. The source counts in double precision; the numbers are
  exact rationals here. The loop has no bound of its own when \<open>step\<close> is not positive, so
  it is a partial function, and that it returns is proved below.
\<close>

partial_function (option) mock_loop ::
    "rat \<Rightarrow> rat \<Rightarrow> (nat \<Rightarrow> bool) \<Rightarrow> nat \<Rightarrow> rat \<Rightarrow> rat list \<Rightarrow> (rat list \<times> bool) option" where
  "mock_loop mockTime step ab k i acc =
     (if i < mockTime
      then (if ab k then Some (acc, True)
            else (let progress = i / mockTime
                  in if progress \<ge> 1 then Some (acc, False)
                     else mock_loop mockTime step ab (k + 1) (i + step) (acc @ [progress])))
      else Some (acc, False))"

declare mock_loop.simps [code]

subsection \<open>createWrappedVideo\<close>

record params =
  arg_entries :: "entry list"
  arg_tags :: "tag list"
  arg_year :: int
  arg_mockTime :: "rat option"

text \<open>
  What the call meets while it runs. \<open>already_aborted\<close>: \<^verbatim>\<open>signal?.aborted\<close> when the call
  starts (false too when no signal is passed). \<open>abort_during_step\<close>: in mock mode, the
  pass of the loop during whose sleep the signal fires. \<open>abort_during_mkdir\<close>: in real
  mode, the signal fires while \<^verbatim>\<open>fs.mkdir\<close> is awaited, before the process is spawned
  and before the \<^verbatim>\<open>abort\<close> listener is added. \<open>mkdir_error\<close>: the error of \<^verbatim>\<open>fs.mkdir\<close>, if
  it fails. \<open>events\<close>: what is delivered while the process runs.
\<close>

record env =
  username :: string
  today :: string
  already_aborted :: bool
  abort_during_step :: "nat option"
  abort_during_mkdir :: bool
  mkdir_error :: "error option"
  events :: "proc_event list"

text \<open>
  What an observer sees of one call: the outcome (\<open>None\<close>: the call never returns), whether
  a process was spawned and with which scene, the kill signals sent to it, the values
  passed to \<^verbatim>\<open>onProgress\<close>, and the state the subscribers share.
\<close>

record 'st run =
  outcome :: "(error + string) option"
  spawned :: bool
  spawned_scene :: "(overlay \<times> rat \<times> rat) list"
  kill_signals :: "string list"
  progress :: "rat list"
  shared :: 'st

definition videoUri :: "int \<Rightarrow> string" where
  "videoUri year = ''epicme://videos/wrapped-'' @ show_int year @ ''.mp4''"

definition aborted_at_pass :: "env \<Rightarrow> nat \<Rightarrow> bool" where
  "aborted_at_pass e k = (case abort_during_step e of None \<Rightarrow> False | Some j \<Rightarrow> j < k)"

text \<open>
  \<^verbatim>\<open>if (mockTime && mockTime > 0)\<close>: the mock time when the call runs in mock mode.
\<close>

definition mock_mode :: "params \<Rightarrow> rat option" where
  "mock_mode ps =
     (case arg_mockTime ps of
        None \<Rightarrow> None
      | Some m \<Rightarrow> if m \<noteq> 0 \<and> m > 0 then Some m else None)"

definition idle :: "'st \<Rightarrow> 'st run" where
  "idle st =
     \<lparr>outcome = None, spawned = False, spawned_scene = [], kill_signals = [],
      progress = [], shared = st\<rparr>"

definition mock_run :: "params \<Rightarrow> env \<Rightarrow> rat \<Rightarrow> 'st \<Rightarrow> 'st run" where
  "mock_run ps e m st =
     (let step = m / 10
      in case mock_loop m step (aborted_at_pass e) 0 0 [] of
           None \<Rightarrow> idle st
         | Some (acc, True) \<Rightarrow>
             (idle st)\<lparr>outcome := Some (Inl (cancelled (arg_year ps))), progress := acc\<rparr>
         | Some (acc, False) \<Rightarrow>
             (idle st)\<lparr>outcome := Some (Inr (videoUri (arg_year ps))), progress := acc @ [1]\<rparr>)"

definition real_run :: "params \<Rightarrow> env \<Rightarrow> 'st subscriber list \<Rightarrow> 'st \<Rightarrow> 'st run" where
  "real_run ps e subscribers st =
     (let sc = scene (username e) (today e) (arg_entries ps) (arg_tags ps) (arg_year ps)
      in case mkdir_error e of
           Some err \<Rightarrow> (idle st)\<lparr>outcome := Some (Inl err)\<rparr>
         | None \<Rightarrow>
             (let p0 = \<lparr>aborted = abort_during_mkdir e, killed = False, kills = [],
                        reported = []\<rparr>;
                  (p, settled) = ffmpegPromise (arg_year ps) p0 (events e);
                  running = (idle st)\<lparr>spawned := True, spawned_scene := sc,
                                      kill_signals := kills p, progress := reported p\<rparr>
              in case settled of
                   None \<Rightarrow> running
                 | Some (Inl err) \<Rightarrow> running\<lparr>outcome := Some (Inl err)\<rparr>
                 | Some (Inr outputFile) \<Rightarrow>
                     (case notifySubscribers subscribers st of
                        (st', Some err) \<Rightarrow> running\<lparr>outcome := Some (Inl err), shared := st'\<rparr>
                      | (st', None) \<Rightarrow>
                          running\<lparr>outcome := Some (Inr (videoUri (arg_year ps))),
                                  shared := st'\<rparr>)))"

definition createWrappedVideo :: "params \<Rightarrow> env \<Rightarrow> 'st subscriber list \<Rightarrow> 'st \<Rightarrow> 'st run" where
  "createWrappedVideo ps e subscribers st =
     (if already_aborted e then (idle st)\<lparr>outcome := Some (Inl (cancelled (arg_year ps)))\<rparr>
      else case mock_mode ps of
             Some m \<Rightarrow> mock_run ps e m st
           | None \<Rightarrow> real_run ps e subscribers st)"

subsection \<open>Examples\<close>

text \<open>
  A call in real mode for 2025 with two entries of equal length, an environment in
  which nothing is aborted, and two subscribers that share a log of who was called:
  one appends its number and returns, the other appends its number and throws.
\<close>

definition sample_params :: params where
  "sample_params =
     \<lparr>arg_entries = [\<lparr>entry_id = 1, title = ''First'', content = ''Hello''\<rparr>,
                     \<lparr>entry_id = 2, title = ''Second'', content = ''World''\<rparr>],
      arg_tags = [], arg_year = 2025, arg_mockTime = None\<rparr>"

definition quiet_env :: env where
  "quiet_env =
     \<lparr>username = ''kody'', today = ''November 2, 2026'', already_aborted = False,
      abort_during_step = None, abort_during_mkdir = False, mkdir_error = None, events = []\<rparr>"

definition logging_subscriber :: "nat \<Rightarrow> nat list subscriber" where
  "logging_subscriber k = (k, \<lambda>log. (log @ [k], None))"

definition failing_subscriber :: "nat \<Rightarrow> nat list subscriber" where
  "failing_subscriber k = (k, \<lambda>log. (log @ [k], Some (Error ''boom'')))"


subsection \<open>The selection in the words of the claim\<close>

text \<open>
  The claim's reading of the two statistics, to compare with the two \<^verbatim>\<open>reduce\<close> calls:
  the first entry, in input order, whose content has the maximum length, and the first
  whose content has the minimum length.
\<close>

definition first_longest :: "entry list \<Rightarrow> entry option" where
  "first_longest es =
     find (\<lambda>e. length (content e) = Max (set (map (\<lambda>e. length (content e)) es))) es"

definition first_shortest :: "entry list \<Rightarrow> entry option" where
  "first_shortest es =
     find (\<lambda>e. length (content e) = Min (set (map (\<lambda>e. length (content e)) es))) es"

section \<open>Results on the capability gate\<close>

lemma gate_enabled: "enabled (gate c b s) = (enabled s)(c := b)"
  by (cases c) (auto simp: gate_def enable_def disable_def send_list_changed_def
      sendResourceListChanged_def sendPromptListChanged_def fun_eq_iff)

lemma gate_outbox:
  "outbox (gate c b s) =
     outbox s @ (if connected s \<and> enabled s c \<noteq> b then [list_changed c] else [])"
  by (cases c) (auto simp: gate_def enable_def disable_def send_list_changed_def
      sendResourceListChanged_def sendPromptListChanged_def list_changed_def)

lemma gate_rest:
  "connected (gate c b s) = connected s"
  "db_subscribers (gate c b s) = db_subscribers s"
  "video_subscribers (gate c b s) = video_subscribers s"
  by (cases c; simp add: gate_def enable_def disable_def send_list_changed_def
      sendResourceListChanged_def sendPromptListChanged_def)+

lemma updatePrompts_gate:
  "updatePrompts snap s = gate SuggestTagsPrompt (predicate SuggestTagsPrompt snap) s"
  by (simp add: updatePrompts_def gate_def)

lemma updateResources_gate:
  "updateResources snap s =
     gate VideoResource (predicate VideoResource snap)
       (gate EntryResource (predicate EntryResource snap)
          (gate TagsResource (predicate TagsResource snap)
             (gate TagListResource (predicate TagListResource snap) s)))"
  by (simp add: updateResources_def gate_def Let_def)

lemma updateResources_enabled:
  "enabled (updateResources snap s) =
     (\<lambda>c. if c = SuggestTagsPrompt then enabled s c else predicate c snap)"
proof
  fix c show "enabled (updateResources snap s) c =
     (if c = SuggestTagsPrompt then enabled s c else predicate c snap)"
    by (cases c) (simp_all add: updateResources_gate gate_enabled)
qed

lemma updateResources_outbox:
  "connected s \<Longrightarrow> outbox (updateResources snap s) =
     outbox s @ map list_changed
       (filter (\<lambda>c. enabled s c \<noteq> predicate c snap)
          [TagListResource, TagsResource, EntryResource, VideoResource])"
  by (simp add: updateResources_gate gate_outbox gate_enabled gate_rest)

lemma updateResources_rest:
  "connected (updateResources snap s) = connected s"
  "db_subscribers (updateResources snap s) = db_subscribers s"
  "video_subscribers (updateResources snap s) = video_subscribers s"
  by (simp_all add: updateResources_gate gate_rest)

lemma updatePrompts_rest:
  "connected (updatePrompts snap s) = connected s"
  "db_subscribers (updatePrompts snap s) = db_subscribers s"
  "video_subscribers (updatePrompts snap s) = video_subscribers s"
  by (simp_all add: updatePrompts_gate gate_rest)

lemma sendResourceListChanged_rest:
  "connected (sendResourceListChanged s) = connected s"
  "enabled (sendResourceListChanged s) = enabled s"
  "db_subscribers (sendResourceListChanged s) = db_subscribers s"
  "video_subscribers (sendResourceListChanged s) = video_subscribers s"
  by (simp_all add: sendResourceListChanged_def)

lemma tick_enabled:
  "db_subscribers s = standard_handlers \<Longrightarrow> enabled (db_change s snap) c = predicate c snap"
  by (cases c) (simp_all add: db_change_def standard_handlers_def updatePrompts_gate gate_enabled
      updateResources_enabled)

lemma tick_rest:
  "db_subscribers s = standard_handlers \<Longrightarrow> db_subscribers (db_change s snap) = standard_handlers"
  "db_subscribers s = standard_handlers \<Longrightarrow> connected (db_change s snap) = connected s"
  by (simp_all add: db_change_def standard_handlers_def updatePrompts_rest updateResources_rest
      sendResourceListChanged_rest)

lemma tick_outbox:
  assumes "connected s" and "db_subscribers s = standard_handlers"
  shows "outbox (db_change s snap) =
     outbox s @ ResourceListChanged # map list_changed
       (filter (\<lambda>c. enabled s c \<noteq> predicate c snap) capabilities)"
proof -
  let ?a = "sendResourceListChanged s"
  let ?b = "updateResources snap ?a"
  have a: "outbox ?a = outbox s @ [ResourceListChanged]" "connected ?a" "enabled ?a = enabled s"
    using assms(1) by (simp_all add: sendResourceListChanged_def)
  have b: "outbox ?b = outbox ?a @ map list_changed
       (filter (\<lambda>c. enabled s c \<noteq> predicate c snap)
          [TagListResource, TagsResource, EntryResource, VideoResource])"
    using updateResources_outbox [OF a(2), of snap] by (simp only: a(3))
  have c: "outbox (updatePrompts snap ?b) = outbox ?b @
      (if enabled s SuggestTagsPrompt \<noteq> predicate SuggestTagsPrompt snap
       then [PromptListChanged] else [])"
    by (simp add: updatePrompts_gate gate_outbox updateResources_rest updateResources_enabled a
        list_changed_def del: predicate.simps)
  have "db_change s snap = updatePrompts snap ?b"
    by (simp add: db_change_def assms(2) standard_handlers_def)
  then show ?thesis
    by (simp add: c b a capabilities_def list_changed_def del: predicate.simps)
qed

lemma init_state:
  "outbox (init reg snap new_server) = []"
  "connected (init reg snap new_server) = False"
  "db_subscribers (init reg snap new_server) = standard_handlers"
  by (simp_all add: init_def initializePrompts_def initializeResources_def Let_def
      updatePrompts_gate updateResources_gate gate_outbox gate_rest register_def db_subscribe_def
      subscribeToVideoChanges_def new_server_def standard_handlers_def del: predicate.simps)

lemma init_enabled: "enabled (init reg snap new_server) c = predicate c snap"
  by (cases c) (simp_all add: init_def initializePrompts_def initializeResources_def Let_def
      updatePrompts_gate updateResources_enabled gate_enabled register_def db_subscribe_def)

lemma main_state:
  "outbox (main reg snap) = []"
  "connected (main reg snap)"
  "db_subscribers (main reg snap) = standard_handlers"
  "enabled (main reg snap) c = predicate c snap"
  by (simp_all add: main_def connect_def init_state init_enabled del: predicate.simps)

lemma run_handlers_kept:
  "db_subscribers s = standard_handlers \<Longrightarrow>
   db_subscribers (foldl db_change s snaps) = standard_handlers"
  by (induction snaps arbitrary: s) (simp_all add: tick_rest)

text \<open>
  Claim C1. Start the server on any store, with any registration default, and let the
  store change any number of times. Once the handlers of a change have run, the flag of
  each capability is its predicate on what the handlers read after that change: the
  \<^verbatim>\<open>suggest_tags\<close> prompt and the entry resource are enabled exactly when there is an
  entry, the tag list and tag resources exactly when there is a tag, the video resource
  exactly when there is a video file. \<open>snaps\<close> are the earlier changes and \<open>snap\<close> the
  latest one, so the statement covers the state after each change of a sequence.
\<close>

theorem flags_follow_predicates:
  "enabled (foldl db_change (main reg snap0) (snaps @ [snap])) c = predicate c snap"
proof -
  have "db_subscribers (foldl db_change (main reg snap0) snaps) = standard_handlers"
    by (rule run_handlers_kept) (rule main_state)
  then show ?thesis
    by (simp add: tick_enabled del: predicate.simps)
qed

theorem flags_follow_predicates_witness:
  "enabled (foldl db_change (main (\<lambda>_. True) empty_snapshot) [one_of_each, empty_snapshot])
     VideoResource = False
   \<and> enabled (foldl db_change (main (\<lambda>_. True) empty_snapshot) [empty_snapshot, one_of_each])
     SuggestTagsPrompt = True"
  using flags_follow_predicates [of "\<lambda>_. True" empty_snapshot "[one_of_each]" empty_snapshot VideoResource]
    flags_follow_predicates [of "\<lambda>_. True" empty_snapshot "[empty_snapshot]" one_of_each SuggestTagsPrompt]
  by (simp add: empty_snapshot_def one_of_each_def)

text \<open>
  Claim C2, as stated, fails on the code. \<^verbatim>\<open>initializeResources\<close> first subscribes
  \<^verbatim>\<open>() => agent.server.sendResourceListChanged()\<close> to the store, so every change sends a
  resource list-changed notification whether or not a flag flips; and each \<^verbatim>\<open>enable()\<close> and
  \<^verbatim>\<open>disable()\<close> sends one of its own, so several flips in one tick send several
  notifications. The counterexample: on a connected server whose store holds one record
  of each kind, a change that leaves all counts positive flips no flag and still sends
  a notification; and from the empty store, the change to one record of each kind sends
  six.
\<close>

theorem list_changed_iff_flipped_counterexample:
  "(\<forall>c. enabled (db_change (main (\<lambda>_. True) one_of_each) one_of_each) c
         = enabled (main (\<lambda>_. True) one_of_each) c)
   \<and> outbox (main (\<lambda>_. True) one_of_each) = []
   \<and> outbox (db_change (main (\<lambda>_. True) one_of_each) one_of_each) = [ResourceListChanged]
   \<and> length (outbox (db_change (main (\<lambda>_. True) empty_snapshot) one_of_each)) = 6"
proof -
  let ?s = "main (\<lambda>_. True) one_of_each"
  have 1: "\<forall>c. enabled (db_change ?s one_of_each) c = enabled ?s c"
    by (simp add: tick_enabled main_state del: predicate.simps)
  have 2: "outbox (db_change ?s one_of_each) = [ResourceListChanged]"
    by (simp add: tick_outbox main_state del: predicate.simps)
  have 3: "length (outbox (db_change (main (\<lambda>_. True) empty_snapshot) one_of_each)) = 6"
    by (simp add: tick_outbox main_state capabilities_def one_of_each_def empty_snapshot_def)
  show ?thesis using 1 2 3 by (simp add: main_state)
qed

text \<open>
  Claim C2, amended to what the code does. On a connected server with the handlers
  that \<^verbatim>\<open>init\<close> registers, one change of the store sends one resource list-changed
  notification unconditionally, followed by one list-changed notification for each
  capability whose flag flips in that tick (a resource list-changed for a resource, a
  prompt list-changed for the prompt), and none for a capability whose flag stays.
\<close>

theorem tick_notifications:
  assumes "connected s" and "db_subscribers s = standard_handlers"
  shows "outbox (db_change s snap) =
     outbox s @ ResourceListChanged # map list_changed
       (filter (\<lambda>c. enabled (db_change s snap) c \<noteq> enabled s c) capabilities)"
proof -
  have "(\<lambda>c. enabled (db_change s snap) c \<noteq> enabled s c) = (\<lambda>c. enabled s c \<noteq> predicate c snap)"
    using assms(2) by (auto simp: tick_enabled fun_eq_iff simp del: predicate.simps)
  then show ?thesis
    using tick_outbox [OF assms] by simp
qed

theorem tick_notifications_witness:
  "connected (main (\<lambda>_. False) empty_snapshot)
   \<and> db_subscribers (main (\<lambda>_. False) empty_snapshot) = standard_handlers
   \<and> outbox (db_change (main (\<lambda>_. False) empty_snapshot) one_of_each) =
       [ResourceListChanged, ResourceListChanged, ResourceListChanged, ResourceListChanged,
        ResourceListChanged, PromptListChanged]
   \<and> outbox (db_change (main (\<lambda>_. False) empty_snapshot) empty_snapshot) = [ResourceListChanged]"
proof -
  let ?s = "main (\<lambda>_. False) empty_snapshot"
  have c: "connected ?s" and h: "db_subscribers ?s = standard_handlers"
    by (rule main_state)+
  have e: "enabled ?s = (\<lambda>c. predicate c empty_snapshot)"
    by (rule ext) (rule main_state)
  have t: "\<And>snap. enabled (db_change ?s snap) = (\<lambda>c. predicate c snap)"
    by (rule ext) (simp add: tick_enabled h del: predicate.simps)
  have o: "\<And>snap. outbox (db_change ?s snap) =
      ResourceListChanged # map list_changed
        (filter (\<lambda>c. predicate c snap \<noteq> predicate c empty_snapshot) capabilities)"
    using tick_notifications [OF c h] by (simp only: e t main_state append_Nil)
  have "outbox (db_change ?s one_of_each) =
       [ResourceListChanged, ResourceListChanged, ResourceListChanged, ResourceListChanged,
        ResourceListChanged, PromptListChanged]"
    unfolding o by (simp add: capabilities_def list_changed_def one_of_each_def empty_snapshot_def)
  moreover have "outbox (db_change ?s empty_snapshot) = [ResourceListChanged]"
    unfolding o by simp
  ultimately show ?thesis
    using c h by simp
qed

text \<open>
  Claim C3. \<^verbatim>\<open>main()\<close> runs \<^verbatim>\<open>init()\<close> before it connects the transport. Whatever the
  store holds at startup and whatever the flags are at registration, the startup runs
  of \<^verbatim>\<open>updateResources\<close> and \<^verbatim>\<open>updatePrompts\<close> leave every flag equal to its predicate, and
  nothing has been sent when \<^verbatim>\<open>init()\<close> returns, nor when the transport is connected.
\<close>

theorem startup_sends_nothing:
  "outbox (init reg snap new_server) = []
   \<and> outbox (main reg snap) = []
   \<and> (\<forall>c. enabled (init reg snap new_server) c = predicate c snap)
   \<and> (\<forall>c. enabled (main reg snap) c = predicate c snap)"
  by (simp add: init_state init_enabled main_state del: predicate.simps)

theorem startup_sends_nothing_witness:
  "outbox (main (\<lambda>_. True) empty_snapshot) = []
   \<and> enabled (main (\<lambda>_. True) empty_snapshot) SuggestTagsPrompt = False
   \<and> outbox (main (\<lambda>_. False) one_of_each) = []
   \<and> enabled (main (\<lambda>_. False) one_of_each) SuggestTagsPrompt = True"
  using startup_sends_nothing [of "\<lambda>_. True" empty_snapshot]
    startup_sends_nothing [of "\<lambda>_. False" one_of_each]
  by (simp add: empty_snapshot_def one_of_each_def)

section \<open>Results on the subscription registry\<close>

lemma notify_entries_subscribed:
  "ResourceUpdated u t \<in> set (notify_entries subs es) \<Longrightarrow> u \<in> subs"
  by (induction es) (auto split: if_splits)

lemma notify_tags_subscribed:
  "ResourceUpdated u t \<in> set (notify_tags subs ts) \<Longrightarrow> u \<in> subs"
  by (induction ts) (auto split: if_splits)

lemma notify_videos_subscribed:
  "ResourceUpdated u t \<in> set (notify_videos subs vs) \<Longrightarrow> u \<in> subs"
  by (induction vs) (auto split: if_splits)

lemma notify_entries_sent:
  "i \<in> set es \<Longrightarrow> entry_uri i \<in> subs \<Longrightarrow>
   ResourceUpdated (entry_uri i) (entry_title i) \<in> set (notify_entries subs es)"
  by (induction es) auto

lemma notify_tags_sent:
  "j \<in> set ts \<Longrightarrow> tag_uri j \<in> subs \<Longrightarrow>
   ResourceUpdated (tag_uri j) (tag_title j) \<in> set (notify_tags subs ts)"
  by (induction ts) auto

lemma on_db_change_subscribed:
  "ResourceUpdated u t \<in> set (on_db_change subs ch) \<Longrightarrow> u \<in> subs"
  by (auto simp: on_db_change_def dest: notify_entries_subscribed notify_tags_subscribed)

lemma on_video_change_subscribed:
  "ResourceUpdated u t \<in> set (on_video_change subs vs) \<Longrightarrow> u \<in> subs"
  by (auto simp: on_video_change_def dest: notify_videos_subscribed)

text \<open>
  As long as nobody subscribes to \<open>u\<close> again, \<open>u\<close> stays out of the set and no
  notification for \<open>u\<close> is added to what has been sent.
\<close>

lemma unsubscribed_stays_silent:
  "u \<notin> subs \<Longrightarrow> Subscribe u \<notin> set reqs \<Longrightarrow> (\<forall>t. ResourceUpdated u t \<notin> set sent) \<Longrightarrow>
   u \<notin> fst (foldl subscriptions_step (subs, sent) reqs)
   \<and> (\<forall>t. ResourceUpdated u t \<notin> set (snd (foldl subscriptions_step (subs, sent) reqs)))"
proof (induction reqs arbitrary: subs sent)
  case Nil
  then show ?case by simp
next
  case (Cons r reqs)
  obtain subs' sent' where step: "subscriptions_step (subs, sent) r = (subs', sent')"
    by (cases "subscriptions_step (subs, sent) r")
  have "u \<notin> subs'" and "\<forall>t. ResourceUpdated u t \<notin> set sent'"
    using Cons.prems step
    by (cases r; auto simp: subscribe_request_def unsubscribe_request_def
        dest: on_db_change_subscribed on_video_change_subscribed)+
  moreover have "Subscribe u \<notin> set reqs"
    using Cons.prems by simp
  ultimately show ?case
    using Cons.IH [of subs' sent'] step by simp
qed

text \<open>
  Claim C4. Let a change descriptor list the entry \<open>i\<close> (or the tag \<open>j\<close>) as affected.
  The handler dispatches the update notification with the URI \<^verbatim>\<open>epicme://entries/i\<close> and
  the title \<^verbatim>\<open>Entry i\<close> (or \<^verbatim>\<open>epicme://tags/j\<close> and \<^verbatim>\<open>Tag j\<close>) exactly when that URI is in
  the subscription set; no notification at all is dispatched for a URI that is not in
  the set; and after an unsubscribe request for a URI, whatever changes and requests
  follow, no notification for that URI is dispatched as long as no new subscribe
  request for it arrives.
\<close>

theorem point_notification_iff_subscribed:
  "(i \<in> set (case changes_entries ch of None \<Rightarrow> [] | Some es \<Rightarrow> es) \<longrightarrow>
      (ResourceUpdated (entry_uri i) (entry_title i) \<in> set (on_db_change subs ch)
         \<longleftrightarrow> entry_uri i \<in> subs))
   \<and> (j \<in> set (case changes_tags ch of None \<Rightarrow> [] | Some ts \<Rightarrow> ts) \<longrightarrow>
      (ResourceUpdated (tag_uri j) (tag_title j) \<in> set (on_db_change subs ch)
         \<longleftrightarrow> tag_uri j \<in> subs))
   \<and> (u \<notin> subs \<longrightarrow> ResourceUpdated u t \<notin> set (on_db_change subs ch))
   \<and> (Subscribe u \<notin> set reqs \<longrightarrow>
        ResourceUpdated u t \<notin> set (snd (subscriptions_run (unsubscribe_request u subs) reqs)))"
proof (intro conjI impI)
  assume a: "i \<in> set (case changes_entries ch of None \<Rightarrow> [] | Some es \<Rightarrow> es)"
  show "ResourceUpdated (entry_uri i) (entry_title i) \<in> set (on_db_change subs ch)
      \<longleftrightarrow> entry_uri i \<in> subs"
  proof
    assume "ResourceUpdated (entry_uri i) (entry_title i) \<in> set (on_db_change subs ch)"
    then show "entry_uri i \<in> subs" by (rule on_db_change_subscribed)
  next
    assume "entry_uri i \<in> subs"
    then show "ResourceUpdated (entry_uri i) (entry_title i) \<in> set (on_db_change subs ch)"
      using notify_entries_sent [OF a] by (simp add: on_db_change_def)
  qed
next
  assume a: "j \<in> set (case changes_tags ch of None \<Rightarrow> [] | Some ts \<Rightarrow> ts)"
  show "ResourceUpdated (tag_uri j) (tag_title j) \<in> set (on_db_change subs ch)
      \<longleftrightarrow> tag_uri j \<in> subs"
  proof
    assume "ResourceUpdated (tag_uri j) (tag_title j) \<in> set (on_db_change subs ch)"
    then show "tag_uri j \<in> subs" by (rule on_db_change_subscribed)
  next
    assume "tag_uri j \<in> subs"
    then show "ResourceUpdated (tag_uri j) (tag_title j) \<in> set (on_db_change subs ch)"
      using notify_tags_sent [OF a] by (simp add: on_db_change_def)
  qed
next
  assume "u \<notin> subs"
  then show "ResourceUpdated u t \<notin> set (on_db_change subs ch)"
    using on_db_change_subscribed by blast
next
  assume "Subscribe u \<notin> set reqs"
  then show "ResourceUpdated u t \<notin> set (snd (subscriptions_run (unsubscribe_request u subs) reqs))"
    using unsubscribed_stays_silent [of u "unsubscribe_request u subs" reqs "[]"]
    by (simp add: subscriptions_run_def unsubscribe_request_def)
qed

lemma show_small: "show_int 3 = ''3''" "show_int 7 = ''7''" "show_int 8 = ''8''"
  by (simp_all add: show_int_def show_nat.simps digit_char_def)

theorem point_notification_iff_subscribed_witness:
  "7 \<in> set (case changes_entries \<lparr>changes_entries = Some [8, 7], changes_tags = Some [3]\<rparr>
              of None \<Rightarrow> [] | Some es \<Rightarrow> es)
   \<and> 3 \<in> set (case changes_tags \<lparr>changes_entries = Some [8, 7], changes_tags = Some [3]\<rparr>
              of None \<Rightarrow> [] | Some ts \<Rightarrow> ts)
   \<and> ResourceUpdated ''epicme://entries/7'' ''Entry 7''
        \<in> set (on_db_change {''epicme://entries/7''}
                 \<lparr>changes_entries = Some [8, 7], changes_tags = Some [3]\<rparr>)
   \<and> ResourceUpdated ''epicme://tags/3'' ''Tag 3''
        \<notin> set (on_db_change {''epicme://entries/7''}
                 \<lparr>changes_entries = Some [8, 7], changes_tags = Some [3]\<rparr>)
   \<and> ''epicme://entries/8'' \<notin> {''epicme://entries/7''}
   \<and> ResourceUpdated ''epicme://entries/8'' ''Entry 8''
        \<notin> set (on_db_change {''epicme://entries/7''}
                 \<lparr>changes_entries = Some [8, 7], changes_tags = Some [3]\<rparr>)
   \<and> Subscribe ''epicme://entries/7''
        \<notin> set [DbChange \<lparr>changes_entries = Some [7], changes_tags = None\<rparr>,
                Subscribe ''epicme://entries/8'',
                DbChange \<lparr>changes_entries = Some [7, 8], changes_tags = None\<rparr>]
   \<and> ResourceUpdated ''epicme://entries/7'' ''Entry 7''
        \<notin> set (snd (subscriptions_run
                 (unsubscribe_request ''epicme://entries/7'' {''epicme://entries/7''})
                 [DbChange \<lparr>changes_entries = Some [7], changes_tags = None\<rparr>,
                  Subscribe ''epicme://entries/8'',
                  DbChange \<lparr>changes_entries = Some [7, 8], changes_tags = None\<rparr>]))"
  using point_notification_iff_subscribed
    [of 7 "\<lparr>changes_entries = Some [8, 7], changes_tags = Some [3]\<rparr>" "{''epicme://entries/7''}"
        3 "''epicme://entries/8''" "''Entry 8''"]
    point_notification_iff_subscribed
    [of 7 "\<lparr>changes_entries = Some [7], changes_tags = None\<rparr>" "{''epicme://entries/7''}"
        3 "''epicme://entries/7''" "''Entry 7''"
        "[DbChange \<lparr>changes_entries = Some [7], changes_tags = None\<rparr>,
          Subscribe ''epicme://entries/8'',
          DbChange \<lparr>changes_entries = Some [7, 8], changes_tags = None\<rparr>]"]
  by (simp add: entry_uri_def entry_title_def tag_uri_def tag_title_def show_small)

section \<open>Results on the video pipeline\<close>

subsection \<open>The subscriber loop\<close>

lemma notifySubscribers_append:
  "notifySubscribers (xs @ ys) st =
     (case notifySubscribers xs st of
        (st', Some e) \<Rightarrow> (st', Some e)
      | (st', None) \<Rightarrow> notifySubscribers ys st')"
  by (induction xs arbitrary: st) (auto split: prod.splits option.splits)

lemma notifySubscribers_all:
  "snd (notifySubscribers subs st) = None \<Longrightarrow>
   fst (notifySubscribers subs st) = foldl (\<lambda>s sub. fst (snd sub s)) st subs"
  by (induction subs arbitrary: st) (auto split: prod.splits option.splits)

text \<open>
  Claim C9, as stated, fails on the code: \<^verbatim>\<open>notifySubscribers\<close> calls the subscribers in a
  plain loop with no \<^verbatim>\<open>try\<close>. The counterexample registers a subscriber that throws
  before one that does not: the second is never called, and the error leaves
  \<^verbatim>\<open>notifySubscribers\<close> and then \<^verbatim>\<open>createWrappedVideo\<close>, the publisher, whose render had
  succeeded.
\<close>

theorem handler_failure_counterexample:
  "notifySubscribers [failing_subscriber 0, logging_subscriber 1] [] = ([0], Some (Error ''boom''))
   \<and> outcome (createWrappedVideo sample_params (quiet_env\<lparr>events := [Close (Some 0)]\<rparr>)
        [failing_subscriber 0, logging_subscriber 1] []) = Some (Inl (Error ''boom''))
   \<and> shared (createWrappedVideo sample_params (quiet_env\<lparr>events := [Close (Some 0)]\<rparr>)
        [failing_subscriber 0, logging_subscriber 1] []) = [0]"
  by (simp add: failing_subscriber_def logging_subscriber_def createWrappedVideo_def
      real_run_def mock_mode_def sample_params_def quiet_env_def idle_def Let_def)

text \<open>
  Claim C9, amended to what the code does. \<^verbatim>\<open>notifySubscribers\<close> calls the subscribers in
  registration order. When one of them throws, the subscribers registered after it are
  not called and the error propagates to the caller, with the state as the throwing
  subscriber left it. When none throws, every subscriber has been called.
\<close>

theorem notifySubscribers_stops_at_failure:
  "(snd (notifySubscribers pre st) = None
      \<and> snd (snd sub (fst (notifySubscribers pre st))) = Some e \<longrightarrow>
    notifySubscribers (pre @ sub # post) st
      = (fst (snd sub (fst (notifySubscribers pre st))), Some e))
   \<and> (snd (notifySubscribers subs st) = None \<longrightarrow>
    fst (notifySubscribers subs st) = foldl (\<lambda>s sub. fst (snd sub s)) st subs)"
proof (intro conjI impI)
  assume "snd (notifySubscribers pre st) = None
      \<and> snd (snd sub (fst (notifySubscribers pre st))) = Some e"
  then show "notifySubscribers (pre @ sub # post) st
      = (fst (snd sub (fst (notifySubscribers pre st))), Some e)"
    by (auto simp: notifySubscribers_append split: prod.splits option.splits)
next
  assume "snd (notifySubscribers subs st) = None"
  then show "fst (notifySubscribers subs st) = foldl (\<lambda>s sub. fst (snd sub s)) st subs"
    by (rule notifySubscribers_all)
qed

theorem notifySubscribers_stops_at_failure_witness:
  "snd (notifySubscribers [logging_subscriber 1] []) = None
   \<and> snd (snd (failing_subscriber 2) (fst (notifySubscribers [logging_subscriber 1] [])))
       = Some (Error ''boom'')
   \<and> notifySubscribers ([logging_subscriber 1] @ failing_subscriber 2 # [logging_subscriber 3]) []
       = ([1, 2], Some (Error ''boom''))
   \<and> snd (notifySubscribers [logging_subscriber 1, logging_subscriber 3] []) = None
   \<and> fst (notifySubscribers [logging_subscriber 1, logging_subscriber 3] []) = [1, 3]"
  using notifySubscribers_stops_at_failure
    [of "[logging_subscriber 1]" "[]" "failing_subscriber 2" "Error ''boom''" "[logging_subscriber 3]"
        "[logging_subscriber 1, logging_subscriber 3]"]
  by (simp add: failing_subscriber_def logging_subscriber_def)


subsection \<open>The renderer process\<close>

lemma ffmpegPromise_data:
  "ffmpegPromise y p (map Data strs @ evs) =
     ffmpegPromise y (p\<lparr>reported := reported p @ List.map_filter stderr_progress strs\<rparr>) evs"
proof (induction strs arbitrary: p)
  case Nil
  then show ?case by (simp add: List.map_filter_simps)
next
  case (Cons s strs)
  then show ?case by (cases "stderr_progress s") (simp_all add: List.map_filter_simps)
qed




lemma ffmpegPromise_aborted:
  "aborted p \<Longrightarrow>
   kills (fst (ffmpegPromise y p evs)) = kills p
   \<and> (snd (ffmpegPromise y p evs) = None \<or> snd (ffmpegPromise y p evs) = Some (Inl (cancelled y)))
   \<and> ((\<exists>code. Close code \<in> set evs) \<longrightarrow> snd (ffmpegPromise y p evs) = Some (Inl (cancelled y)))"
proof (induction y p evs rule: ffmpegPromise.induct)
  case (2 year p str evs)
  then show ?case by (cases "stderr_progress str") auto
qed auto

text \<open>
  The first half of what the sources say about cancellation: a signal that is aborted
  when the call starts ends the call at once, in both modes, with the cancellation
  error; no process is spawned, no progress is reported, no subscriber is called.
\<close>

lemma already_aborted_spawns_nothing:
  "already_aborted e \<Longrightarrow>
   createWrappedVideo ps e subs st = (idle st)\<lparr>outcome := Some (Inl (cancelled (arg_year ps)))\<rparr>"
  by (simp add: createWrappedVideo_def)

text \<open>
  The second half, for an abort that arrives while the process runs and the listener
  is registered: the process is sent \<^verbatim>\<open>SIGKILL\<close> once, and when it closes the call
  rejects with the cancellation error whatever the exit code is.
\<close>

lemma abort_while_running_kills:
  assumes "\<not> already_aborted e" and "mock_mode ps = None" and "mkdir_error e = None"
    and "\<not> abort_during_mkdir e"
    and "events e = map Data strs @ Abort # post" and "Close code \<in> set post"
  shows "kill_signals (createWrappedVideo ps e subs st) = [''SIGKILL'']
    \<and> spawned (createWrappedVideo ps e subs st)
    \<and> outcome (createWrappedVideo ps e subs st) = Some (Inl (cancelled (arg_year ps)))"
proof -
  define p1 where "p1 = \<lparr>aborted = True, killed = True, kills = [''SIGKILL''],
      reported = List.map_filter stderr_progress strs\<rparr>"
  have run: "ffmpegPromise (arg_year ps)
      \<lparr>aborted = abort_during_mkdir e, killed = False, kills = [], reported = []\<rparr> (events e)
      = ffmpegPromise (arg_year ps) p1 post"
    using assms(4,5) by (simp add: ffmpegPromise_data onAbort_def p1_def)
  have "aborted p1" by (simp add: p1_def)
  from ffmpegPromise_aborted [OF this, of "arg_year ps" post] assms(6)
  have k: "kills (fst (ffmpegPromise (arg_year ps) p1 post)) = [''SIGKILL'']"
    and o: "snd (ffmpegPromise (arg_year ps) p1 post) = Some (Inl (cancelled (arg_year ps)))"
    by (auto simp: p1_def)
  obtain p' r where pr: "ffmpegPromise (arg_year ps) p1 post = (p', r)"
    by (cases "ffmpegPromise (arg_year ps) p1 post")
  have "kills p' = [''SIGKILL'']" and "r = Some (Inl (cancelled (arg_year ps)))"
    using k o pr by simp_all
  then show ?thesis
    using assms(1,2,3) pr
    by (simp add: createWrappedVideo_def real_run_def run idle_def Let_def)
qed

text \<open>
  Claim C5 fails on the code where the signal fires while \<^verbatim>\<open>fs.mkdir\<close> is awaited: after
  the check at the start of the call, before the process exists and before the \<^verbatim>\<open>abort\<close>
  listener is added. The listener is added to a signal that has fired already, so it is
  never called: the process is spawned, is never killed, and runs to its end; only then
  does the \<^verbatim>\<open>close\<close> handler see \<^verbatim>\<open>signal.aborted\<close> and reject with the cancellation
  error.
\<close>

theorem abort_during_mkdir_never_kills:
  "spawned (createWrappedVideo sample_params
      (quiet_env\<lparr>abort_during_mkdir := True,
                 events := [Data ''frame=100 time=00:00:30.00 bitrate=1.0'', Close (Some 0)]\<rparr>)
      [logging_subscriber 1] [])
   \<and> kill_signals (createWrappedVideo sample_params
      (quiet_env\<lparr>abort_during_mkdir := True,
                 events := [Data ''frame=100 time=00:00:30.00 bitrate=1.0'', Close (Some 0)]\<rparr>)
      [logging_subscriber 1] []) = []
   \<and> progress (createWrappedVideo sample_params
      (quiet_env\<lparr>abort_during_mkdir := True,
                 events := [Data ''frame=100 time=00:00:30.00 bitrate=1.0'', Close (Some 0)]\<rparr>)
      [logging_subscriber 1] []) = [1 / 2]
   \<and> outcome (createWrappedVideo sample_params
      (quiet_env\<lparr>abort_during_mkdir := True,
                 events := [Data ''frame=100 time=00:00:30.00 bitrate=1.0'', Close (Some 0)]\<rparr>)
      [logging_subscriber 1] [])
     = Some (Inl (Error ''Creating Wrapped Video for 2025 was cancelled''))"
  by (simp add: createWrappedVideo_def real_run_def mock_mode_def sample_params_def quiet_env_def
      idle_def Let_def stderr_progress_def match_here_def digit_val_def totalDurationSeconds_def
      cancelled_def show_int_def show_nat.simps digit_char_def)


text \<open>
  Claim C8, as stated, fails in mock mode: the mock branch returns the URI right after
  the loop and never reaches \<^verbatim>\<open>notifySubscribers()\<close>. The counterexample is a mock run that
  succeeds while the log of the one registered subscriber stays empty.
\<close>

theorem mock_success_notifies_nobody_counterexample:
  "outcome (createWrappedVideo (sample_params\<lparr>arg_mockTime := Some 1000\<rparr>) quiet_env
      [logging_subscriber 1] []) = Some (Inr ''epicme://videos/wrapped-2025.mp4'')
   \<and> shared (createWrappedVideo (sample_params\<lparr>arg_mockTime := Some 1000\<rparr>) quiet_env
      [logging_subscriber 1] []) = []"
  by (simp add: createWrappedVideo_def mock_run_def mock_mode_def sample_params_def quiet_env_def
      idle_def Let_def mock_loop.simps aborted_at_pass_def videoUri_def show_int_def
      show_nat.simps digit_char_def)

text \<open>
  Claim C8, amended to what the code does. A run in real renderer mode that returns the
  video URI has called every registered subscriber, in registration order, and none of
  them threw: the shared state is the result of all of them. A run in mock mode calls
  no subscriber.
\<close>

theorem real_success_notifies_subscribers:
  "(mock_mode ps = None \<and> outcome (createWrappedVideo ps e subs st) = Some (Inr u) \<longrightarrow>
      snd (notifySubscribers subs st) = None
      \<and> shared (createWrappedVideo ps e subs st) = foldl (\<lambda>s sub. fst (snd sub s)) st subs
      \<and> u = videoUri (arg_year ps))
   \<and> (mock_mode ps \<noteq> None \<longrightarrow> shared (createWrappedVideo ps e subs st) = st)"
proof (intro conjI impI)
  assume a: "mock_mode ps = None \<and> outcome (createWrappedVideo ps e subs st) = Some (Inr u)"
  then have n: "snd (notifySubscribers subs st) = None"
    and s: "shared (createWrappedVideo ps e subs st) = fst (notifySubscribers subs st)"
    and u: "u = videoUri (arg_year ps)"
    by (auto simp: createWrappedVideo_def real_run_def idle_def Let_def cancelled_def
        split: if_splits option.splits prod.splits sum.splits)
  show "snd (notifySubscribers subs st) = None" by (rule n)
  show "shared (createWrappedVideo ps e subs st) = foldl (\<lambda>s sub. fst (snd sub s)) st subs"
    using s notifySubscribers_all [OF n] by simp
  show "u = videoUri (arg_year ps)" by (rule u)
next
  assume "mock_mode ps \<noteq> None"
  then show "shared (createWrappedVideo ps e subs st) = st"
    by (auto simp: createWrappedVideo_def mock_run_def idle_def Let_def
        split: option.splits prod.splits bool.splits)
qed

theorem real_success_notifies_subscribers_witness:
  "mock_mode sample_params = None
   \<and> outcome (createWrappedVideo sample_params (quiet_env\<lparr>events := [Close (Some 0)]\<rparr>)
        [logging_subscriber 1, logging_subscriber 2] [])
       = Some (Inr ''epicme://videos/wrapped-2025.mp4'')
   \<and> shared (createWrappedVideo sample_params (quiet_env\<lparr>events := [Close (Some 0)]\<rparr>)
        [logging_subscriber 1, logging_subscriber 2] []) = [1, 2]
   \<and> mock_mode (sample_params\<lparr>arg_mockTime := Some 1000\<rparr>) \<noteq> None
   \<and> shared (createWrappedVideo (sample_params\<lparr>arg_mockTime := Some 1000\<rparr>) quiet_env
        [logging_subscriber 1, logging_subscriber 2] []) = []"
proof -
  have m: "mock_mode sample_params = None"
    and m': "mock_mode (sample_params\<lparr>arg_mockTime := Some 1000\<rparr>) \<noteq> None"
    by (simp_all add: mock_mode_def sample_params_def)
  have o: "outcome (createWrappedVideo sample_params (quiet_env\<lparr>events := [Close (Some 0)]\<rparr>)
        [logging_subscriber 1, logging_subscriber 2] [])
       = Some (Inr ''epicme://videos/wrapped-2025.mp4'')"
    by (simp add: createWrappedVideo_def real_run_def mock_mode_def quiet_env_def idle_def Let_def
        logging_subscriber_def videoUri_def sample_params_def show_int_def show_nat.simps
        digit_char_def)
  show ?thesis
    using real_success_notifies_subscribers
      [of sample_params "quiet_env\<lparr>events := [Close (Some 0)]\<rparr>"
          "[logging_subscriber 1, logging_subscriber 2]" "[]" "''epicme://videos/wrapped-2025.mp4''"]
      real_success_notifies_subscribers
      [of "sample_params\<lparr>arg_mockTime := Some 1000\<rparr>" quiet_env
          "[logging_subscriber 1, logging_subscriber 2]" "[]"]
      m m' o
    by (simp add: logging_subscriber_def)
qed


subsection \<open>The mock loop\<close>


text \<open>With a positive step the loop returns: each pass brings \<open>i\<close> closer to the mock time.\<close>

lemma mock_loop_returns:
  assumes "0 < step"
  shows "\<exists>r. mock_loop m step ab k i acc = Some r"
proof (induction "nat \<lceil>(m - i) / step\<rceil>" arbitrary: k i acc rule: less_induct)
  case less
  show ?case
  proof (cases "i < m \<and> \<not> ab k \<and> \<not> 1 \<le> i / m")
    case False
    then show ?thesis
      by (subst mock_loop.simps) (auto simp: Let_def)
  next
    case True
    have "(m - (i + step)) / step = (m - i) / step - 1"
      using assms by (simp add: field_simps)
    moreover have "0 < (m - i) / step"
      using True assms by simp
    ultimately have "nat \<lceil>(m - (i + step)) / step\<rceil> < nat \<lceil>(m - i) / step\<rceil>"
      by (simp add: ceiling_diff_one)
    from less [OF this] obtain r
      where "mock_loop m step ab (k + 1) (i + step) (acc @ [i / m]) = Some r"
      by blast
    then show ?thesis
      using True by (subst mock_loop.simps) (simp add: Let_def)
  qed
qed

lemma mock_run_returns:
  "mock_mode ps = Some m \<Longrightarrow> outcome (createWrappedVideo ps e subs st) \<noteq> None"
proof -
  assume a: "mock_mode ps = Some m"
  then have "0 < m / 10"
    by (auto simp: mock_mode_def split: option.splits if_splits)
  from mock_loop_returns [OF this, of m "aborted_at_pass e" 0 0 "[]"]
  obtain acc c where "mock_loop m (m / 10) (aborted_at_pass e) 0 0 [] = Some (acc, c)"
    by auto
  then show ?thesis
    using a by (cases c) (simp_all add: createWrappedVideo_def mock_run_def idle_def Let_def)
qed









subsection \<open>Scene construction\<close>

lemma Max_insert_small:
  "finite S \<Longrightarrow> (v::nat) \<le> w \<Longrightarrow> Max (insert v (insert w S)) = Max (insert w S)"
proof -
  assume f: "finite S" and le: "v \<le> w"
  have "w \<le> Max (insert w S)" using f by simp
  then have "v \<le> Max (insert w S)" using le by linarith
  moreover have "Max (insert v (insert w S)) = max v (Max (insert w S))"
    using f by (intro Max_insert) simp_all
  ultimately show ?thesis by (simp only: max_absorb2)
qed

lemma Min_insert_large:
  "finite S \<Longrightarrow> (w::nat) \<le> v \<Longrightarrow> Min (insert v (insert w S)) = Min (insert w S)"
proof -
  assume f: "finite S" and le: "w \<le> v"
  have "Min (insert w S) \<le> w" using f by simp
  then have "Min (insert w S) \<le> v" using le by linarith
  moreover have "Min (insert v (insert w S)) = min v (Min (insert w S))"
    using f by (intro Min_insert) simp_all
  ultimately show ?thesis by (simp only: min_absorb2)
qed

lemma fold_longest:
  "foldl (\<lambda>longest e.
            if length (content e) > (case longest of None \<Rightarrow> 0 | Some l \<Rightarrow> length (content l))
            then Some e else longest) (Some (a::entry)) xs
   = find (\<lambda>e. length (content e) = Max (set (map (\<lambda>e. length (content e)) (a # xs)))) (a # xs)"
proof (induction xs arbitrary: a)
  case Nil
  then show ?case by simp
next
  case (Cons x xs)
  let ?cl = "\<lambda>e::entry. length (content e)"
  let ?S = "?cl ` set xs"
  define M where "M = Max (set (map ?cl (a # x # xs)))"
  have all: "set (map ?cl (a # x # xs)) = insert (?cl a) (insert (?cl x) ?S)"
    and tail: "\<And>b. set (map ?cl (b # xs)) = insert (?cl b) ?S"
    by simp_all
  have fin: "finite ?S" by simp
  have goal: "?case \<longleftrightarrow>
    foldl (\<lambda>longest e. if ?cl e > (case longest of None \<Rightarrow> 0 | Some l \<Rightarrow> ?cl l)
                        then Some e else longest) (Some (if ?cl x > ?cl a then x else a)) xs
      = find (\<lambda>e. ?cl e = M) (a # x # xs)"
    unfolding M_def by simp
  show ?case
  proof (cases "?cl x > ?cl a")
    case True
    then have "?cl a \<le> ?cl x" by simp
    from Max_insert_small [OF fin this]
    have E: "Max (set (map ?cl (x # xs))) = M"
      unfolding M_def by (simp only: all tail)
    have "?cl x \<le> M"
      unfolding E [symmetric] by (simp only: tail) (simp add: fin)
    then have neq: "?cl a \<noteq> M" using True by linarith
    have "find (\<lambda>e. ?cl e = M) (a # x # xs) = find (\<lambda>e. ?cl e = M) (x # xs)"
      using neq by simp
    then show ?thesis
      unfolding goal using True Cons.IH [of x] by (simp only: E if_True)
  next
    case False
    then have "?cl x \<le> ?cl a" by simp
    from Max_insert_small [OF fin this]
    have E: "Max (set (map ?cl (a # xs))) = M"
      unfolding M_def by (simp only: all tail insert_commute [of "?cl a" "?cl x"])
    have "?cl a \<le> M"
      unfolding E [symmetric] by (simp only: tail) (simp add: fin)
    then have "?cl a = M \<or> ?cl x \<noteq> M" using False by linarith
    then have "find (\<lambda>e. ?cl e = M) (a # x # xs) = find (\<lambda>e. ?cl e = M) (a # xs)"
      by auto
    then show ?thesis
      unfolding goal using False Cons.IH [of a] by (simp only: E if_False)
  qed
qed

lemma fold_shortest:
  "foldl (\<lambda>shortest e.
            if length (content e) < (case shortest of None \<Rightarrow> 0 | Some l \<Rightarrow> length (content l))
            then Some e else shortest) (Some (a::entry)) xs
   = find (\<lambda>e. length (content e) = Min (set (map (\<lambda>e. length (content e)) (a # xs)))) (a # xs)"
proof (induction xs arbitrary: a)
  case Nil
  then show ?case by simp
next
  case (Cons x xs)
  let ?cl = "\<lambda>e::entry. length (content e)"
  let ?S = "?cl ` set xs"
  define M where "M = Min (set (map ?cl (a # x # xs)))"
  have all: "set (map ?cl (a # x # xs)) = insert (?cl a) (insert (?cl x) ?S)"
    and tail: "\<And>b. set (map ?cl (b # xs)) = insert (?cl b) ?S"
    by simp_all
  have fin: "finite ?S" by simp
  have goal: "?case \<longleftrightarrow>
    foldl (\<lambda>shortest e. if ?cl e < (case shortest of None \<Rightarrow> 0 | Some l \<Rightarrow> ?cl l)
                         then Some e else shortest) (Some (if ?cl x < ?cl a then x else a)) xs
      = find (\<lambda>e. ?cl e = M) (a # x # xs)"
    unfolding M_def by simp
  show ?case
  proof (cases "?cl x < ?cl a")
    case True
    then have "?cl x \<le> ?cl a" by simp
    from Min_insert_large [OF fin this]
    have E: "Min (set (map ?cl (x # xs))) = M"
      unfolding M_def by (simp only: all tail)
    have "M \<le> ?cl x"
      unfolding E [symmetric] by (simp only: tail) (simp add: fin)
    then have neq: "?cl a \<noteq> M" using True by linarith
    have "find (\<lambda>e. ?cl e = M) (a # x # xs) = find (\<lambda>e. ?cl e = M) (x # xs)"
      using neq by simp
    then show ?thesis
      unfolding goal using True Cons.IH [of x] by (simp only: E if_True)
  next
    case False
    then have "?cl a \<le> ?cl x" by simp
    from Min_insert_large [OF fin this]
    have E: "Min (set (map ?cl (a # xs))) = M"
      unfolding M_def by (simp only: all tail insert_commute [of "?cl a" "?cl x"])
    have "M \<le> ?cl a"
      unfolding E [symmetric] by (simp only: tail) (simp add: fin)
    then have "?cl a = M \<or> ?cl x \<noteq> M" using False by linarith
    then have "find (\<lambda>e. ?cl e = M) (a # x # xs) = find (\<lambda>e. ?cl e = M) (a # xs)"
      by auto
    then show ?thesis
      unfolding goal using False Cons.IH [of a] by (simp only: E if_False)
  qed
qed

lemma longestEntry_first: "longestEntry es = first_longest es"
proof (cases es)
  case Nil
  then show ?thesis by (simp add: longestEntry_def first_longest_def)
next
  case (Cons e0 rest)
  then show ?thesis
    unfolding longestEntry_def first_longest_def
    using fold_longest [of e0 rest] by simp
qed

lemma shortestEntry_first: "shortestEntry es = first_shortest es"
proof (cases es)
  case Nil
  then show ?thesis by (simp add: shortestEntry_def first_shortest_def)
next
  case (Cons e0 rest)
  then show ?thesis
    unfolding shortestEntry_def first_shortest_def
    using fold_shortest [of e0 rest] by simp
qed

lemma spawned_scene_is_scene:
  "spawned (createWrappedVideo ps e subs st) \<Longrightarrow>
   spawned_scene (createWrappedVideo ps e subs st)
     = scene (username e) (today e) (arg_entries ps) (arg_tags ps) (arg_year ps)"
proof -
  assume a: "spawned (createWrappedVideo ps e subs st)"
  let ?p0 = "\<lparr>aborted = abort_during_mkdir e, killed = False, kills = [], reported = []\<rparr>"
  obtain p r where pr: "ffmpegPromise (arg_year ps) ?p0 (events e) = (p, r)"
    by (cases "ffmpegPromise (arg_year ps) ?p0 (events e)")
  obtain st' x where n: "notifySubscribers subs st = (st', x)"
    by (cases "notifySubscribers subs st")
  have real: "\<not> already_aborted e" "mock_mode ps = None" "mkdir_error e = None"
    using a
    by (auto simp: createWrappedVideo_def mock_run_def real_run_def idle_def Let_def
        split: if_splits option.splits prod.splits bool.splits)
  then show ?thesis
    using pr n
    by (cases r; cases x)
      (auto simp: createWrappedVideo_def real_run_def idle_def Let_def split: sum.splits)
qed


lemma scene_second:
  "fst (scene u d es ts y ! 1)
     = \<lparr>overlay_text = ''It is '' @ d, color = ''#33FF99'', fontsize = 72\<rparr>"
proof -
  let ?txts = "texts u d es ts y"
  have n: "?txts ! 1 = \<lparr>overlay_text = ''It is '' @ d, color = ''#33FF99'', fontsize = 72\<rparr>"
    and len: "1 < length ?txts"
    by (simp_all add: texts_def texts_raw_def List.map_filter_simps)
  have "length (timings ?txts) = length ?txts"
    by (simp add: timings_def Let_def)
  then have "zip ?txts (timings ?txts) ! 1 = (?txts ! 1, timings ?txts ! 1)"
    using len by (intro nth_zip) simp_all
  then show ?thesis
    using n by (simp add: scene_def Let_def)
qed

text \<open>
  Claim C7, as stated, fails for the overlay sequence: two of the overlays are not made
  from the entries, the tags and the year. The first greets the operating system's
  user, the second prints today's date. The counterexample runs the same entries, tags
  and year on two days and gets two different scenes.
\<close>

theorem scene_depends_on_today_counterexample:
  "spawned (createWrappedVideo sample_params (quiet_env\<lparr>events := [Close (Some 0)]\<rparr>) [] ())
   \<and> spawned (createWrappedVideo sample_params
        (quiet_env\<lparr>today := ''November 3, 2026'', events := [Close (Some 0)]\<rparr>) [] ())
   \<and> spawned_scene (createWrappedVideo sample_params (quiet_env\<lparr>events := [Close (Some 0)]\<rparr>) [] ())
     \<noteq> spawned_scene (createWrappedVideo sample_params
        (quiet_env\<lparr>today := ''November 3, 2026'', events := [Close (Some 0)]\<rparr>) [] ())"
proof -
  let ?e1 = "quiet_env\<lparr>events := [Close (Some 0)]\<rparr>"
  let ?e2 = "quiet_env\<lparr>today := ''November 3, 2026'', events := [Close (Some 0)]\<rparr>"
  have sp: "spawned (createWrappedVideo sample_params ?e1 [] ())"
    "spawned (createWrappedVideo sample_params ?e2 [] ())"
    by (simp_all add: createWrappedVideo_def real_run_def mock_mode_def sample_params_def
        quiet_env_def idle_def Let_def)
  have d: "today ?e1 = ''November 2, 2026''" "today ?e2 = ''November 3, 2026''"
    by (simp_all add: quiet_env_def)
  have "fst (spawned_scene (createWrappedVideo sample_params ?e1 [] ()) ! 1)
      \<noteq> fst (spawned_scene (createWrappedVideo sample_params ?e2 [] ()) ! 1)"
    unfolding spawned_scene_is_scene [OF sp(1)] spawned_scene_is_scene [OF sp(2)] scene_second d
    by simp
  then have "spawned_scene (createWrappedVideo sample_params ?e1 [] ())
      \<noteq> spawned_scene (createWrappedVideo sample_params ?e2 [] ())"
    by metis
  then show ?thesis using sp by simp
qed

text \<open>
  Claim C7, amended to what the code does. The longest entry is the first entry, in
  input order, whose content has the maximum length, and the shortest entry is the
  first whose content has the minimum length; both are functions of the entries alone.
  The scene that reaches the renderer is a function of the entries, the tags, the year,
  the operating system's user name and today's date, and of nothing else: two runs
  that agree on these five build the same scene.
\<close>

theorem scene_construction:
  "longestEntry es = first_longest es
   \<and> shortestEntry es = first_shortest es
   \<and> (spawned (createWrappedVideo ps e subs st) \<longrightarrow>
        spawned_scene (createWrappedVideo ps e subs st)
          = scene (username e) (today e) (arg_entries ps) (arg_tags ps) (arg_year ps))
   \<and> (username e = username e' \<and> today e = today e'
        \<and> spawned (createWrappedVideo ps e subs st)
        \<and> spawned (createWrappedVideo ps e' subs' st') \<longrightarrow>
        spawned_scene (createWrappedVideo ps e subs st)
          = spawned_scene (createWrappedVideo ps e' subs' st'))"
  by (simp add: longestEntry_first shortestEntry_first spawned_scene_is_scene)

theorem scene_construction_witness:
  "longestEntry (arg_entries sample_params)
     = Some \<lparr>entry_id = 1, title = ''First'', content = ''Hello''\<rparr>
   \<and> shortestEntry (arg_entries sample_params)
     = Some \<lparr>entry_id = 1, title = ''First'', content = ''Hello''\<rparr>
   \<and> first_longest (arg_entries sample_params)
     = Some \<lparr>entry_id = 1, title = ''First'', content = ''Hello''\<rparr>
   \<and> spawned (createWrappedVideo sample_params (quiet_env\<lparr>events := [Close (Some 0)]\<rparr>) [] ())
   \<and> map (\<lambda>t. overlay_text (fst t))
        (spawned_scene (createWrappedVideo sample_params
           (quiet_env\<lparr>events := [Close (Some 0)]\<rparr>) [] ()))
     = [''Hello kody!'', ''It is November 2, 2026'',
        ''Here is your EpicMe wrapped video for 2025'', ''You wrote 2 entries in 2025'',
        ''Your longest entry was 5 characters'' @ [CHR 0x0A] @ ''\"First\" '',
        ''Your shortest entry was 5 characters'' @ [CHR 0x0A] @ ''\"First\" '',
        ''You did not create any tags in 2025'', ''Good job!'', ''Keep Journaling in 2026!'']
   \<and> map snd (spawned_scene (createWrappedVideo sample_params
           (quiet_env\<lparr>events := [Close (Some 0)]\<rparr>) [] ()))
     = [(0, 20 / 3), (20 / 3, 40 / 3), (40 / 3, 20), (20, 80 / 3), (80 / 3, 100 / 3),
        (100 / 3, 40), (40, 140 / 3), (140 / 3, 160 / 3), (160 / 3, 60)]"
proof -
  have l: "longestEntry (arg_entries sample_params)
      = Some \<lparr>entry_id = 1, title = ''First'', content = ''Hello''\<rparr>"
    and s: "shortestEntry (arg_entries sample_params)
      = Some \<lparr>entry_id = 1, title = ''First'', content = ''Hello''\<rparr>"
    by (simp_all add: longestEntry_def shortestEntry_def sample_params_def)
  have sp: "spawned (createWrappedVideo sample_params (quiet_env\<lparr>events := [Close (Some 0)]\<rparr>) [] ())"
    by (simp add: createWrappedVideo_def real_run_def mock_mode_def sample_params_def
        quiet_env_def idle_def Let_def)
  have t: "map overlay_text (texts ''kody'' ''November 2, 2026'' (arg_entries sample_params) [] 2025)
     = [''Hello kody!'', ''It is November 2, 2026'',
        ''Here is your EpicMe wrapped video for 2025'', ''You wrote 2 entries in 2025'',
        ''Your longest entry was 5 characters'' @ [CHR 0x0A] @ ''\"First\" '',
        ''Your shortest entry was 5 characters'' @ [CHR 0x0A] @ ''\"First\" '',
        ''You did not create any tags in 2025'', ''Good job!'', ''Keep Journaling in 2026!'']"
    by (simp add: texts_def texts_raw_def l s List.map_filter_simps show_int_def show_nat.simps
        digit_char_def) (simp add: sample_params_def)
  have len: "length (texts ''kody'' ''November 2, 2026'' (arg_entries sample_params) [] 2025) = 9"
    using arg_cong [OF t, of length] by simp
  have tm: "timings (texts ''kody'' ''November 2, 2026'' (arg_entries sample_params) [] 2025)
     = [(0, 20 / 3), (20 / 3, 40 / 3), (40 / 3, 20), (20, 80 / 3), (80 / 3, 100 / 3),
        (100 / 3, 40), (40, 140 / 3), (140 / 3, 160 / 3), (160 / 3, 60)]"
    unfolding timings_def len by (simp add: totalDurationSeconds_def upt_rec Let_def)
  have sc: "map (\<lambda>t. overlay_text (fst t))
        (scene ''kody'' ''November 2, 2026'' (arg_entries sample_params) [] 2025)
      = map overlay_text (texts ''kody'' ''November 2, 2026'' (arg_entries sample_params) [] 2025)"
    "map snd (scene ''kody'' ''November 2, 2026'' (arg_entries sample_params) [] 2025)
      = timings (texts ''kody'' ''November 2, 2026'' (arg_entries sample_params) [] 2025)"
    unfolding scene_def Let_def
    by (simp_all add: map_fst_zip map_snd_zip len tm flip: map_map comp_def [of overlay_text fst])
  have e: "username (quiet_env\<lparr>events := [Close (Some 0)]\<rparr>) = ''kody''"
    "today (quiet_env\<lparr>events := [Close (Some 0)]\<rparr>) = ''November 2, 2026''"
    "arg_tags sample_params = []" "arg_year sample_params = 2025"
    by (simp_all add: quiet_env_def sample_params_def)
  have eq: "spawned_scene (createWrappedVideo sample_params (quiet_env\<lparr>events := [Close (Some 0)]\<rparr>) [] ())
      = scene ''kody'' ''November 2, 2026'' (arg_entries sample_params) [] 2025"
    using scene_construction
      [of "arg_entries sample_params" sample_params "quiet_env\<lparr>events := [Close (Some 0)]\<rparr>"
          "[]" "()" "quiet_env\<lparr>events := [Close (Some 0)]\<rparr>" "[]" "()"] sp e
    by simp
  have fl: "first_longest (arg_entries sample_params)
      = Some \<lparr>entry_id = 1, title = ''First'', content = ''Hello''\<rparr>"
    using scene_construction
      [of "arg_entries sample_params" sample_params "quiet_env\<lparr>events := [Close (Some 0)]\<rparr>"
          "[]" "()" "quiet_env\<lparr>events := [Close (Some 0)]\<rparr>" "[]" "()"] l
    by simp
  show ?thesis
    unfolding eq sc t tm using l s fl sp by simp
qed

section \<open>Results on the delete tools\<close>

lemma find_filter_out: "find (\<lambda>x. f x = i) (filter (\<lambda>x. f x \<noteq> i) xs) = None"
  by (induction xs) auto

lemma find_filter_other:
  "k \<noteq> i \<Longrightarrow> find (\<lambda>x. f x = k) (filter (\<lambda>x. f x \<noteq> i) xs) = find (\<lambda>x. f x = k) xs"
  by (induction xs) auto

text \<open>
  Claim C10. When the store holds no entry with the id, \<^verbatim>\<open>delete_entry\<close> throws the
  error \<^verbatim>\<open>Entry with ID "<id>" not found\<close> and the store is as it was. When it holds one,
  the tool deletes it (afterwards the id is not found, every other id is found as
  before) and returns structured content with \<^verbatim>\<open>success: true\<close> and the entry as it was
  before the deletion. The same holds for \<^verbatim>\<open>delete_tag\<close>, whose message is
  \<^verbatim>\<open>Tag ID "<id>" not found\<close>.
\<close>

theorem delete_tools_not_found_or_deleted:
  "(getEntry d i = None \<longrightarrow>
      delete_entry d i = (d, Inl (Error (''Entry with ID \"'' @ show_int i @ ''\" not found''))))
   \<and> (getEntry d i = Some e \<longrightarrow>
      (\<exists>r. delete_entry d i = (deleteEntry d i, Inr r)
           \<and> structuredContent r = \<lparr>success = True, entry = e\<rparr>)
      \<and> getEntry (deleteEntry d i) i = None
      \<and> (\<forall>k. k \<noteq> i \<longrightarrow> getEntry (deleteEntry d i) k = getEntry d k)
      \<and> tags (deleteEntry d i) = tags d)
   \<and> (getTag d i = None \<longrightarrow>
      delete_tag d i = (d, Inl (Error (''Tag ID \"'' @ show_int i @ ''\" not found''))))
   \<and> (getTag d i = Some t \<longrightarrow>
      (\<exists>r. delete_tag d i = (deleteTag d i, Inr r)
           \<and> structuredContent r = \<lparr>tag_success = True, tag = t\<rparr>)
      \<and> getTag (deleteTag d i) i = None
      \<and> (\<forall>k. k \<noteq> i \<longrightarrow> getTag (deleteTag d i) k = getTag d k)
      \<and> entries (deleteTag d i) = entries d)"
  by (simp add: delete_entry_def delete_tag_def getEntry_def getTag_def deleteEntry_def
      deleteTag_def Let_def find_filter_out find_filter_other)

theorem delete_tools_not_found_or_deleted_witness:
  "getEntry sample_db 3 = None
   \<and> delete_entry sample_db 3 = (sample_db, Inl (Error ''Entry with ID \"3\" not found''))
   \<and> getTag sample_db 3 = None
   \<and> delete_tag sample_db 3 = (sample_db, Inl (Error ''Tag ID \"3\" not found''))
   \<and> getEntry sample_db 2 = Some \<lparr>entry_id = 2, title = ''Second'', content = ''World''\<rparr>
   \<and> entries (fst (delete_entry sample_db 2)) = [\<lparr>entry_id = 1, title = ''First'', content = ''Hello''\<rparr>]
   \<and> getTag sample_db 5 = Some \<lparr>tag_id = 5, name = ''work''\<rparr>
   \<and> tags (fst (delete_tag sample_db 5)) = []"
  using delete_tools_not_found_or_deleted [of sample_db 3]
    delete_tools_not_found_or_deleted
      [of sample_db 2 "\<lparr>entry_id = 2, title = ''Second'', content = ''World''\<rparr>"]
    delete_tools_not_found_or_deleted
      [of sample_db 5 _ "\<lparr>tag_id = 5, name = ''work''\<rparr>"]
  by (auto simp: sample_db_def getEntry_def getTag_def deleteEntry_def deleteTag_def
      show_int_def show_nat.simps digit_char_def)

end
